theory Spec2Isabelle
  imports Main "HOL-Library.List_Lexorder" "HOL-Library.Char_ord"
begin

section \<open>Strings and formatting\<close>

text \<open>
  Go strings are byte sequences; they are modelled as \<^typ>\<open>string\<close> (a list of 8-bit
  characters). \<open>sort.Strings\<close> orders them bytewise, which is the lexicographic order on
  \<^typ>\<open>char list\<close> over the order of character codes.
\<close>

abbreviation squote :: string where
  "squote \<equiv> [CHR 0x27]"

text \<open>\<open>strings.Join(elems, sep)\<close>.\<close>

fun Join :: "string list \<Rightarrow> string \<Rightarrow> string" where
  "Join [] sep = ''''"
| "Join [x] sep = x"
| "Join (x # y # ys) sep = x @ sep @ Join (y # ys) sep"

text \<open>The verb \<open>%d\<close> of \<open>fmt.Sprintf\<close>: decimal digits, with a minus sign when negative.\<close>

definition digit :: "nat \<Rightarrow> char" where
  "digit d = ''0123456789'' ! d"

fun show_nat :: "nat \<Rightarrow> string" where
  "show_nat n = (if n < 10 then [digit n] else show_nat (n div 10) @ [digit (n mod 10)])"

declare show_nat.simps [simp del]

definition show_int :: "int \<Rightarrow> string" where
  "show_int i = (if i < 0 then CHR ''-'' # show_nat (nat (- i)) else show_nat (nat i))"

section \<open>Errors, backend calls and the client\<close>

text \<open>
  An \<open>error\<close> value of Go is modelled by its message; \<open>fmt.Errorf\<close> with \<open>%w\<close> puts the
  message of the wrapped error into the new one.
\<close>

datatype error = Error string

fun errmsg :: "error \<Rightarrow> string" where
  "errmsg (Error m) = m"

text \<open>
  The package \<open>client/suseobservability\<close> is the backend. Its methods are parameters of
  the model (the record \<open>Client\<close>), and each tool returns, next to its result, the list
  of the backend calls it made, in order.
\<close>

datatype backend_call =
    SnapShotTopologyQueryCall string
  | GetMonitorsOverviewCall
  | GetMonitorCheckStatesCall string string int int
  | ListMetricsCall int int
  | GetMetricLabelsCall string int int
  | QueryRangeMetricCall string int int string string

record ViewComponent =
  vc_ID :: int
  vc_Name :: string
  InternalType :: string
  vc_Identifiers :: "string list"
  vc_Tags :: "string list"
  OutgoingRelations :: "int list"

record Monitor =
  Id :: int
  mon_Name :: string
  mon_Description :: string

record RuntimeMetrics =
  CriticalCount :: int
  DeviatingCount :: int
  UnknownCount :: int

record MonitorOverview =
  Monitor :: Monitor
  RuntimeMetrics :: RuntimeMetrics

record CheckState =
  TopologyElementId :: int
  TopologyElementIdType :: string
  cs_Name :: string

text \<open>
  A sample of a series. The value is a float in the source; its type is left abstract
  and its rendering with \<open>%.4f\<close> is a parameter of the renderer.
\<close>

record 'v Point =
  Timestamp :: int
  Value :: 'v

text \<open>
  \<open>Labels\<close> is a Go \<open>map[string]string\<close>, modelled by an association list whose order
  stands for the (unspecified) iteration order of the map; a lookup takes the first
  binding, and a missing key reads as the empty string, as in Go.
\<close>

record 'v MetricResult =
  Labels :: "(string \<times> string) list"
  Points :: "'v Point list"

record 'v Client =
  SnapShotTopologyQuery :: "string \<Rightarrow> error + ViewComponent list"
  GetMonitorsOverview :: "error + MonitorOverview list"
  GetMonitorCheckStates :: "string \<Rightarrow> string \<Rightarrow> int \<Rightarrow> int \<Rightarrow> error + CheckState list"
  ListMetricsNames :: "int \<Rightarrow> int \<Rightarrow> error + string list"
  GetMetricLabels :: "string \<Rightarrow> int \<Rightarrow> int \<Rightarrow> error + string list"
  QueryRange :: "string \<Rightarrow> int \<Rightarrow> int \<Rightarrow> string \<Rightarrow> string \<Rightarrow> error + 'v MetricResult list"

type_synonym ToolResult = "backend_call list \<times> (error + string)"

section \<open>GetComponents\<close>

record GetComponentsParams =
  Query :: string
  NamePattern :: string
  Type :: string
  Layer :: string
  Domain :: string
  HealthState :: string
  WithNeighbors :: bool
  WithNeighborsLevels :: string
  WithNeighborsDirection :: string

record Component =
  ID :: int
  Name :: string
  c_Type :: string
  Identifiers :: "string list"
  Tags :: "string list"
  Relations :: "int list"

text \<open>
  The named-filter branch of \<open>GetComponents\<close> up to the join: \<open>queryParts\<close> grows by
  one clause for each non-empty filter, then the clauses are joined with \<open>AND\<close>.
\<close>

definition queryParts :: "GetComponentsParams \<Rightarrow> string list" where
  \<open>queryParts params =
     (let parts = [];
          parts = (if NamePattern params \<noteq> ''''
                   then parts @ [''name = "'' @ NamePattern params @ ''"''] else parts);
          parts = (if Type params \<noteq> ''''
                   then parts @ [''type = "'' @ Type params @ ''"''] else parts);
          parts = (if Layer params \<noteq> ''''
                   then parts @ [''layer = "'' @ Layer params @ ''"''] else parts);
          parts = (if Domain params \<noteq> ''''
                   then parts @ [''domain = "'' @ Domain params @ ''"''] else parts);
          parts = (if HealthState params \<noteq> ''''
                   then parts @ [''healthstate = "'' @ HealthState params @ ''"''] else parts)
      in parts)\<close>

definition baseQuery :: "GetComponentsParams \<Rightarrow> string" where
  "baseQuery params =
     (let parts = queryParts params
      in if length parts > 0 then Join parts '' AND '' else '''')"

definition validDirections :: "string \<Rightarrow> bool" where
  "validDirections d = (d = ''up'' \<or> d = ''down'' \<or> d = ''both'')"

text \<open>
  The query of \<open>GetComponents\<close> before the check for emptiness: the raw query when it is
  given, else the base query, rewritten with \<open>withNeighborsOf\<close> when neighbours are asked
  for. The two early returns of the neighbour branch are the \<open>Inl\<close> results.
\<close>

definition buildQuery :: "GetComponentsParams \<Rightarrow> error + string" where
  \<open>buildQuery params =
     (if Query params \<noteq> '''' then Inr (Query params)
      else
        let query = baseQuery params in
        if WithNeighbors params then
          if query = '''' then
            Inl (Error ''with_neighbors requires at least one filter to define the components'')
          else
            let levels = WithNeighborsLevels params;
                levels = (if levels = '''' then ''1'' else levels);
                direction = WithNeighborsDirection params;
                direction = (if direction = '''' then ''both'' else direction)
            in
              if \<not> validDirections direction then
                Inl (Error (''invalid with_neighbors_direction '' @ squote @ direction @ squote
                        @ ''. Must be 'up', 'down', or 'both'' @ squote))
              else
                let neighborsQuery =
                      ''withNeighborsOf(components = ('' @ query @ ''), levels = "'' @ levels
                        @ ''", direction = "'' @ direction @ ''")''
                in Inr (query @ '' OR '' @ neighborsQuery)
        else Inr query)\<close>

definition simplifyViewComponents :: "ViewComponent list \<Rightarrow> Component list" where
  "simplifyViewComponents components =
     foldl (\<lambda>simplified c. simplified @
              [\<lparr>ID = vc_ID c, Name = vc_Name c, c_Type = InternalType c,
                Identifiers = vc_Identifiers c, Tags = vc_Tags c,
                Relations = OutgoingRelations c\<rparr>]) [] components"

definition summaryFilters :: "GetComponentsParams \<Rightarrow> string list" where
  "summaryFilters params =
     (let filters = [];
          filters = (if NamePattern params \<noteq> ''''
                     then filters @ [''name: '' @ NamePattern params] else filters);
          filters = (if Type params \<noteq> ''''
                     then filters @ [''type: '' @ Type params] else filters);
          filters = (if Layer params \<noteq> ''''
                     then filters @ [''layer: '' @ Layer params] else filters);
          filters = (if Domain params \<noteq> ''''
                     then filters @ [''domain: '' @ Domain params] else filters);
          filters = (if HealthState params \<noteq> ''''
                     then filters @ [''healthstate: '' @ HealthState params] else filters)
      in filters)"

definition componentRow :: "Component \<Rightarrow> string" where
  "componentRow c =
     (let identifiersStr =
            (if length (Identifiers c) > 0 then
               (if length (Identifiers c) > 2
                then Join (take 2 (Identifiers c)) '', '' @ ''...''
                else Join (Identifiers c) '', '')
             else ''-'')
      in ''| '' @ Name c @ '' | '' @ c_Type c @ '' | '' @ show_int (ID c) @ '' | ''
           @ identifiersStr @ '' |\<newline>'')"

definition formatComponentsTable :: "Component list \<Rightarrow> GetComponentsParams \<Rightarrow> string \<Rightarrow> string" where
  "formatComponentsTable components params query =
     (if length components = 0 then ''No components found for query: '' @ query
      else
        let sb = ''Found '' @ show_int (int (length components)) @ '' component(s)'';
            sb = (if Query params \<noteq> '''' then sb @ '' for query: '' @ Query params
                  else
                    let filters = summaryFilters params
                    in if length filters > 0 then sb @ '' ('' @ Join filters '', '' @ '')''
                       else sb);
            sb = sb @ '':\<newline>\<newline>'';
            sb = sb @ ''| Component Name | Type | ID | Identifiers |\<newline>'';
            sb = sb @ ''|---|---|---|---|\<newline>''
        in foldl (\<lambda>sb c. sb @ componentRow c) sb components)"

definition GetComponents :: "'v Client \<Rightarrow> GetComponentsParams \<Rightarrow> ToolResult" where
  "GetComponents client params =
     (case buildQuery params of
        Inl e \<Rightarrow> ([], Inl e)
      | Inr query \<Rightarrow>
          if query = '''' then
            ([], Inl (Error (''either 'query' or at least one filter ''
                       @ ''(name_pattern, type, layer, domain, healthstate) must be provided'')))
          else
            (case SnapShotTopologyQuery client query of
               Inl err \<Rightarrow>
                 ([SnapShotTopologyQueryCall query],
                  Inl (Error (''failed to query topology (STQL: '' @ query @ ''): '' @ errmsg err)))
             | Inr components \<Rightarrow>
                 ([SnapShotTopologyQueryCall query],
                  Inr (formatComponentsTable (simplifyViewComponents components) params query))))"

section \<open>GetMonitors\<close>

record GetMonitorsParams =
  State :: string

record MonitorRow =
  row_Name :: string
  row_Description :: string
  AffectedCount :: int
  AffectedComponent :: string

definition validStates :: "string \<Rightarrow> bool" where
  "validStates s = (s = ''CRITICAL'' \<or> s = ''DEVIATING'' \<or> s = ''UNKNOWN'')"

text \<open>The \<open>switch\<close> on the state; \<open>count\<close> keeps its zero value when no case matches.\<close>

definition stateCount :: "string \<Rightarrow> RuntimeMetrics \<Rightarrow> int" where
  "stateCount state metrics =
     (if state = ''CRITICAL'' then CriticalCount metrics
      else if state = ''DEVIATING'' then DeviatingCount metrics
      else if state = ''UNKNOWN'' then UnknownCount metrics
      else 0)"

definition maxComponents :: nat where
  "maxComponents = 5"

definition fallbackRow :: "Monitor \<Rightarrow> int \<Rightarrow> MonitorRow" where
  "fallbackRow monitor count =
     \<lparr>row_Name = mon_Name monitor, row_Description = mon_Description monitor,
      AffectedCount = count, AffectedComponent = ''-''\<rparr>"

definition componentRowOf :: "Monitor \<Rightarrow> int \<Rightarrow> CheckState \<Rightarrow> MonitorRow" where
  "componentRowOf monitor count checkState =
     (let componentRef = ''ID:'' @ show_int (TopologyElementId checkState);
          componentRef = (if TopologyElementIdType checkState = ''identifier''
                          then ''URN:'' @ show_int (TopologyElementId checkState)
                          else componentRef);
          componentStr = cs_Name checkState @ '' ('' @ componentRef @ '')''
      in \<lparr>row_Name = mon_Name monitor, row_Description = mon_Description monitor,
          AffectedCount = count, AffectedComponent = componentStr\<rparr>)"

definition moreRow :: "Monitor \<Rightarrow> int \<Rightarrow> nat \<Rightarrow> MonitorRow" where
  "moreRow monitor count n =
     \<lparr>row_Name = mon_Name monitor, row_Description = ''-'',
      AffectedCount = count,
      AffectedComponent = ''... and '' @ show_int (int n - int maxComponents) @ '' more''\<rparr>"

text \<open>
  The loop over \<open>checkStates.States\<close> with its \<open>break\<close>: \<open>componentsShown\<close> and \<open>rows\<close>
  are the loop state.
\<close>

fun listAffected :: "Monitor \<Rightarrow> int \<Rightarrow> CheckState list \<Rightarrow> nat \<Rightarrow> MonitorRow list \<Rightarrow> MonitorRow list" where
  "listAffected monitor count [] componentsShown rows = rows"
| "listAffected monitor count (checkState # rest) componentsShown rows =
     (if componentsShown \<ge> maxComponents then rows
      else listAffected monitor count rest (componentsShown + 1)
             (rows @ [componentRowOf monitor count checkState]))"

text \<open>The rows one monitor adds, given the answer of its check-state lookup.\<close>

definition monitorRows :: "Monitor \<Rightarrow> int \<Rightarrow> error + CheckState list \<Rightarrow> MonitorRow list \<Rightarrow> MonitorRow list" where
  "monitorRows monitor count lookup rows =
     (case lookup of
        Inl err \<Rightarrow> rows @ [fallbackRow monitor count]
      | Inr states \<Rightarrow>
          if length states = 0 then rows @ [fallbackRow monitor count]
          else
            let rows = listAffected monitor count states 0 rows
            in if length states > maxComponents
               then rows @ [moreRow monitor count (length states)]
               else rows)"

text \<open>One pass of the loop over \<open>overview.Monitors\<close>; the state is the call log and \<open>rows\<close>.\<close>

definition monitorStep ::
  "'v Client \<Rightarrow> string \<Rightarrow> backend_call list \<times> MonitorRow list \<Rightarrow> MonitorOverview
     \<Rightarrow> backend_call list \<times> MonitorRow list" where
  "monitorStep client state acc monitorOverview =
     (let calls = fst acc; rows = snd acc;
          monitor = Monitor monitorOverview;
          metrics = RuntimeMetrics monitorOverview;
          count = stateCount state metrics
      in if count = 0 then (calls, rows)
         else
           (calls @ [GetMonitorCheckStatesCall (show_int (Id monitor)) state 10 0],
            monitorRows monitor count
              (GetMonitorCheckStates client (show_int (Id monitor)) state 10 0) rows))"

text \<open>
  The summary loop: \<open>seenMonitors\<close> is a \<open>map[string]bool\<close>, a function that is false on
  every key not yet stored.
\<close>

definition countStep :: "int \<times> (string \<Rightarrow> bool) \<Rightarrow> MonitorRow \<Rightarrow> int \<times> (string \<Rightarrow> bool)" where
  "countStep acc row =
     (let monitorCount = fst acc; seenMonitors = snd acc
      in if \<not> seenMonitors (row_Name row)
         then (monitorCount + 1, seenMonitors(row_Name row := True))
         else (monitorCount, seenMonitors))"

definition countMonitors :: "MonitorRow list \<Rightarrow> int" where
  "countMonitors rows = fst (foldl countStep (0, \<lambda>_. False) rows)"

definition monitorLine :: "MonitorRow \<Rightarrow> string" where
  "monitorLine row =
     (let desc = row_Description row;
          desc = (if desc = '''' then ''-'' else desc);
          desc = (if length desc > 50 then take 47 desc @ ''...'' else desc)
      in ''| '' @ row_Name row @ '' | '' @ desc @ '' | '' @ show_int (AffectedCount row)
           @ '' | '' @ AffectedComponent row @ '' |\<newline>'')"

definition collectRows ::
  "'v Client \<Rightarrow> string \<Rightarrow> MonitorOverview list \<Rightarrow> backend_call list \<times> MonitorRow list" where
  "collectRows client state monitors =
     foldl (monitorStep client state) ([GetMonitorsOverviewCall], []) monitors"

definition renderMonitors :: "string \<Rightarrow> MonitorRow list \<Rightarrow> string" where
  "renderMonitors state rows =
     (if length rows = 0 then ''No monitors in '' @ state @ '' state found.''
      else
        let sb = ''Found '' @ show_int (countMonitors rows) @ '' monitor(s) in '' @ state
                   @ '' state:\<newline>\<newline>'';
            sb = sb @ ''| Monitor Name | Description | Affected Count | Affected Component |\<newline>'';
            sb = sb @ ''|---|---|---|---|\<newline>''
        in foldl (\<lambda>sb row. sb @ monitorLine row) sb rows)"

definition GetMonitors :: "'v Client \<Rightarrow> GetMonitorsParams \<Rightarrow> ToolResult" where
  "GetMonitors client params =
     (let state = State params;
          state = (if state = '''' then ''CRITICAL'' else state)
      in if \<not> validStates state then
           ([], Inl (Error (''invalid state '' @ squote @ state @ squote
                      @ ''. Allowed values: CRITICAL, DEVIATING, UNKNOWN'')))
         else
           (case GetMonitorsOverview client of
              Inl err \<Rightarrow>
                ([GetMonitorsOverviewCall],
                 Inl (Error (''failed to get monitors overview: '' @ errmsg err)))
            | Inr monitors \<Rightarrow>
                (let acc = collectRows client state monitors
                 in (fst acc, Inr (renderMonitors state (snd acc))))))"

section \<open>ListMetrics and QueryRangeMetric\<close>

record ListMetricsParams =
  SearchPattern :: string

record QueryRangeMetricParams =
  qr_Query :: string
  Start :: string
  End :: string
  Step :: string

definition maxMetrics :: nat where
  "maxMetrics = 50"

text \<open>One pass of the loop over \<open>metricsToProcess\<close>; the state is the call log and \<open>sb\<close>.\<close>

definition metricStep ::
  "'v Client \<Rightarrow> int \<Rightarrow> int \<Rightarrow> backend_call list \<times> string \<Rightarrow> string
     \<Rightarrow> backend_call list \<times> string" where
  "metricStep client startTime endTime acc metricName =
     (let calls = fst acc @ [GetMetricLabelsCall metricName startTime endTime]; sb = snd acc
      in case GetMetricLabels client metricName startTime endTime of
           Inl err \<Rightarrow> (calls, sb @ ''| '' @ metricName @ '' | - |\<newline>'')
         | Inr labels \<Rightarrow>
             let labelsStr = (if length labels > 0 then Join labels '', '' else ''-'')
             in (calls, sb @ ''| '' @ metricName @ '' | '' @ labelsStr @ '' |\<newline>''))"

text \<open>
  \<open>regexp.Compile\<close> and \<open>MatchString\<close> of the Go library are the parameters \<open>compile\<close>
  and \<open>matchString\<close>; \<open>now\<close> is the reading of \<open>time.Now()\<close> in seconds.
\<close>

definition ListMetrics ::
  "'v Client \<Rightarrow> (string \<Rightarrow> error + 're) \<Rightarrow> ('re \<Rightarrow> string \<Rightarrow> bool) \<Rightarrow> int
     \<Rightarrow> ListMetricsParams \<Rightarrow> ToolResult" where
  "ListMetrics client compile matchString now params =
     (if SearchPattern params = '''' then ([], Inl (Error ''search_pattern is required''))
      else
        let endTime = now; startTime = endTime - 3600
        in case ListMetricsNames client startTime endTime of
             Inl err \<Rightarrow>
               ([ListMetricsCall startTime endTime],
                Inl (Error (''failed to list metrics: '' @ errmsg err)))
           | Inr metrics \<Rightarrow>
               (case compile (SearchPattern params) of
                  Inl err \<Rightarrow>
                    ([ListMetricsCall startTime endTime],
                     Inl (Error (''invalid regex pattern: '' @ errmsg err)))
                | Inr re \<Rightarrow>
                    let filteredMetrics =
                          foldl (\<lambda>fm m. if matchString re m then fm @ [m] else fm) [] metrics
                    in if length filteredMetrics = 0 then
                         ([ListMetricsCall startTime endTime],
                          Inr (''No metrics found matching '' @ squote @ SearchPattern params
                                 @ squote @ ''.''))
                       else
                         let truncated = (length filteredMetrics > maxMetrics);
                             metricsToProcess =
                               (if truncated then take maxMetrics filteredMetrics
                                else filteredMetrics);
                             sb = ''Found '' @ show_int (int (length filteredMetrics))
                                    @ '' metrics matching '' @ squote @ SearchPattern params
                                    @ squote;
                             sb = (if truncated
                                   then sb @ '' (showing first '' @ show_int (int maxMetrics) @ '')''
                                   else sb);
                             sb = sb @ '':\<newline>\<newline>'';
                             sb = sb @ ''| Metric Name | Labels |\<newline>'';
                             sb = sb @ ''|---|---|\<newline>'';
                             acc = foldl (metricStep client startTime endTime)
                                     ([ListMetricsCall startTime endTime], sb) metricsToProcess;
                             sb = snd acc;
                             sb = (if truncated
                                   then sb @ ''\<newline>_Note: Showing first ''
                                          @ show_int (int maxMetrics) @ '' of ''
                                          @ show_int (int (length filteredMetrics))
                                          @ '' metrics. Use a more specific search pattern to narrow results._\<newline>''
                                   else sb)
                         in (fst acc, Inr sb)))"

subsection \<open>formatMetrics\<close>

text \<open>
  \<open>labelKeys\<close> is a \<open>map[string]bool\<close> used as a set; it is held as a duplicate-free
  list, whose order stands for the iteration order of the map.
\<close>

definition collectLabelKeys :: "'v MetricResult list \<Rightarrow> string list" where
  "collectLabelKeys metricsResult =
     foldl (\<lambda>labelKeys res.
              foldl (\<lambda>labelKeys k. if k \<noteq> ''__name__'' then List.insert k labelKeys
                                    else labelKeys)
                labelKeys (map fst (Labels res)))
       [] metricsResult"

definition labelValue :: "'v MetricResult \<Rightarrow> string \<Rightarrow> string" where
  "labelValue res k = (case map_of (Labels res) k of None \<Rightarrow> '''' | Some v \<Rightarrow> v)"

definition labelCell :: "'v MetricResult \<Rightarrow> string \<Rightarrow> string" where
  "labelCell res k =
     (let val = labelValue res k;
          val = (if val = '''' then ''-'' else val)
      in '' '' @ val @ '' |'')"

text \<open>
  The body of the loop over \<open>res.Points\<close>. The timestamp in RFC 3339 and the value with
  \<open>%.4f\<close> are rendered by the parameters \<open>fmtTime\<close> and \<open>fmtValue\<close>.
\<close>

definition pointRow ::
  "(int \<Rightarrow> string) \<Rightarrow> ('v \<Rightarrow> string) \<Rightarrow> string list \<Rightarrow> 'v MetricResult \<Rightarrow> string \<Rightarrow> 'v Point
     \<Rightarrow> string" where
  "pointRow fmtTime fmtValue sortedKeys res sb p =
     (let ts = fmtTime (Timestamp p);
          sb = sb @ ''| '' @ ts @ '' | '' @ fmtValue (Value p) @ '' |'';
          sb = foldl (\<lambda>sb k. sb @ labelCell res k) sb sortedKeys
      in sb @ ''\<newline>'')"

definition formatMetrics ::
  "(int \<Rightarrow> string) \<Rightarrow> ('v \<Rightarrow> string) \<Rightarrow> 'v MetricResult list \<Rightarrow> string \<Rightarrow> string" where
  "formatMetrics fmtTime fmtValue metricsResult queryName =
     (if length metricsResult = 0 then ''No data found.''
      else
        let sortedKeys = sort (collectLabelKeys metricsResult);
            sb = ''| Timestamp | Value |'';
            sb = foldl (\<lambda>sb k. sb @ '' '' @ k @ '' |'') sb sortedKeys;
            sb = sb @ ''\<newline>'';
            sb = sb @ ''|---|---|'';
            sb = foldl (\<lambda>sb k. sb @ ''---|'') sb sortedKeys;
            sb = sb @ ''\<newline>''
        in foldl (\<lambda>sb res. foldl (pointRow fmtTime fmtValue sortedKeys res) sb (Points res))
             sb metricsResult)"

text \<open>
  \<open>parseTime\<close>: \<open>time.ParseDuration\<close> is the parameter \<open>parseDuration\<close> (\<open>None\<close> when it
  returns an error) and \<open>now\<close> the reading of \<open>time.Now()\<close>.
\<close>

definition parseTime :: "(string \<Rightarrow> int option) \<Rightarrow> int \<Rightarrow> string \<Rightarrow> error + int" where
  "parseTime parseDuration now s =
     (if s = ''now'' then Inr now
      else case parseDuration s of
             Some d \<Rightarrow> Inr (now - d)
           | None \<Rightarrow>
               Inl (Error (''invalid time format: '' @ s
                      @ '' (expected 'now' or duration like '1h')'')))"

definition QueryRangeMetric ::
  "'v Client \<Rightarrow> (string \<Rightarrow> int option) \<Rightarrow> (int \<Rightarrow> string) \<Rightarrow> ('v \<Rightarrow> string) \<Rightarrow> int \<Rightarrow> int
     \<Rightarrow> QueryRangeMetricParams \<Rightarrow> ToolResult" where
  "QueryRangeMetric client parseDuration fmtTime fmtValue now1 now2 params =
     (case parseTime parseDuration now1 (Start params) of
        Inl err \<Rightarrow> ([], Inl (Error (''failed to parse start time: '' @ errmsg err)))
      | Inr startTime \<Rightarrow>
          (case parseTime parseDuration now2 (End params) of
             Inl err \<Rightarrow> ([], Inl (Error (''failed to parse end time: '' @ errmsg err)))
           | Inr endTime \<Rightarrow>
               let step = Step params;
                   step = (if step = '''' then ''1m'' else step);
                   timeout = ''30s''
               in case QueryRange client (qr_Query params) startTime endTime step timeout of
                    Inl err \<Rightarrow>
                      ([QueryRangeMetricCall (qr_Query params) startTime endTime step timeout],
                       Inl (Error (''failed to query range metri c: '' @ errmsg err)))
                  | Inr result \<Rightarrow>
                      ([QueryRangeMetricCall (qr_Query params) startTime endTime step timeout],
                       Inr (formatMetrics fmtTime fmtValue result (qr_Query params)))))"

section \<open>The specification's reading of the results\<close>

text \<open>
  The base query in the specification's words: the \<open>AND\<close>-join of the clauses
  \<open>field = "value"\<close> of the non-empty named filters, in the order name, type, layer,
  domain, healthstate.
\<close>

definition spec_baseQuery :: "GetComponentsParams \<Rightarrow> string" where
  \<open>spec_baseQuery params =
     Join (map (\<lambda>(field, v). field @ '' = "'' @ v @ ''"'')
             (filter (\<lambda>(field, v). v \<noteq> '''')
                [(''name'', NamePattern params), (''type'', Type params),
                 (''layer'', Layer params), (''domain'', Domain params),
                 (''healthstate'', HealthState params)]))
       '' AND ''\<close>

text \<open>
  The monitors that pass the gate \<open>count == 0\<close> of the loop, and the monitors the
  specification counts: those with a strictly positive counter.
\<close>

definition activeMonitors :: "string \<Rightarrow> MonitorOverview list \<Rightarrow> MonitorOverview list" where
  "activeMonitors state monitors =
     filter (\<lambda>mo. stateCount state (RuntimeMetrics mo) \<noteq> 0) monitors"

definition activeNames :: "string \<Rightarrow> MonitorOverview list \<Rightarrow> string list" where
  "activeNames state monitors = map (\<lambda>mo. mon_Name (Monitor mo)) (activeMonitors state monitors)"

definition spec_positiveMonitors :: "string \<Rightarrow> MonitorOverview list \<Rightarrow> MonitorOverview list" where
  "spec_positiveMonitors state monitors =
     filter (\<lambda>mo. stateCount state (RuntimeMetrics mo) > 0) monitors"

text \<open>The rows of the monitor table for one monitor, and the rendered table.\<close>

definition rowsOf :: "'v Client \<Rightarrow> string \<Rightarrow> MonitorOverview \<Rightarrow> MonitorRow list" where
  "rowsOf client state mo = snd (monitorStep client state ([], []) mo)"

definition spec_monitorTable :: "string \<Rightarrow> MonitorRow list \<Rightarrow> string" where
  "spec_monitorTable state rows =
     ''Found '' @ show_int (int (card (row_Name ` set rows))) @ '' monitor(s) in '' @ state
       @ '' state:\<newline>\<newline>''
       @ ''| Monitor Name | Description | Affected Count | Affected Component |\<newline>''
       @ ''|---|---|---|---|\<newline>''
       @ concat (map monitorLine rows)"

text \<open>
  The metric table in the specification's words: the columns are the sorted union of the
  label keys of all series without the reserved key, and the rows follow the series,
  then the samples of each series.
\<close>

definition spec_columns :: "'v MetricResult list \<Rightarrow> string list" where
  "spec_columns metricsResult =
     sorted_list_of_set
       ((\<Union>res \<in> set metricsResult. fst ` set (Labels res)) - {''__name__''})"

definition spec_metricRow ::
  "(int \<Rightarrow> string) \<Rightarrow> ('v \<Rightarrow> string) \<Rightarrow> string list \<Rightarrow> 'v MetricResult \<Rightarrow> 'v Point \<Rightarrow> string" where
  "spec_metricRow fmtTime fmtValue columns res p =
     ''| '' @ fmtTime (Timestamp p) @ '' | '' @ fmtValue (Value p) @ '' |''
       @ concat (map (labelCell res) columns) @ ''\<newline>''"

definition spec_metricTable ::
  "(int \<Rightarrow> string) \<Rightarrow> ('v \<Rightarrow> string) \<Rightarrow> 'v MetricResult list \<Rightarrow> string" where
  "spec_metricTable fmtTime fmtValue metricsResult =
     (let columns = spec_columns metricsResult
      in ''| Timestamp | Value |'' @ concat (map (\<lambda>k. '' '' @ k @ '' |'') columns) @ ''\<newline>''
           @ ''|---|---|'' @ concat (map (\<lambda>k. ''---|'') columns) @ ''\<newline>''
           @ concat (map (\<lambda>res. concat (map (spec_metricRow fmtTime fmtValue columns res)
                                           (Points res)))
                       metricsResult))"

text \<open>The line of the metric list for one metric, given the answer of its label lookup.\<close>

definition metricLine :: "'v Client \<Rightarrow> int \<Rightarrow> int \<Rightarrow> string \<Rightarrow> string" where
  "metricLine client startTime endTime metricName =
     snd (metricStep client startTime endTime ([], '''') metricName)"

text \<open>
  The text of the metric list: the summary, the header, one line for each processed
  metric and, when more than \<open>maxMetrics\<close> names matched, the closing note.
\<close>

definition spec_metricList :: "'v Client \<Rightarrow> int \<Rightarrow> int \<Rightarrow> string \<Rightarrow> string list \<Rightarrow> string" where
  "spec_metricList client startTime endTime pattern filtered =
     ''Found '' @ show_int (int (length filtered)) @ '' metrics matching '' @ squote @ pattern
       @ squote
       @ (if length filtered > maxMetrics
          then '' (showing first '' @ show_int (int maxMetrics) @ '')'' else '''')
       @ '':\<newline>\<newline>''
       @ ''| Metric Name | Labels |\<newline>''
       @ ''|---|---|\<newline>''
       @ concat (map (metricLine client startTime endTime) (take maxMetrics filtered))
       @ (if length filtered > maxMetrics
          then ''\<newline>_Note: Showing first '' @ show_int (int maxMetrics) @ '' of ''
                 @ show_int (int (length filtered))
                 @ '' metrics. Use a more specific search pattern to narrow results._\<newline>''
          else '''')"

section \<open>Example inputs\<close>

definition redisParams :: GetComponentsParams where
  "redisParams =
     \<lparr>Query = '''', NamePattern = ''redis*'', Type = '''', Layer = '''', Domain = '''',
      HealthState = '''', WithNeighbors = True, WithNeighborsLevels = '''',
      WithNeighborsDirection = ''down''\<rparr>"

definition noFilterParams :: GetComponentsParams where
  "noFilterParams =
     \<lparr>Query = '''', NamePattern = '''', Type = '''', Layer = '''', Domain = '''',
      HealthState = '''', WithNeighbors = False, WithNeighborsLevels = '''',
      WithNeighborsDirection = ''''\<rparr>"

definition eightStates :: "CheckState list" where
  "eightStates =
     map (\<lambda>i. \<lparr>TopologyElementId = i, TopologyElementIdType = ''id'', cs_Name = ''pod''\<rparr>)
       [1, 2, 3, 4, 5, 6, 7, 8]"

definition cpuMonitor :: MonitorOverview where
  "cpuMonitor =
     \<lparr>Monitor = \<lparr>Id = 1, mon_Name = ''cpu'', mon_Description = ''CPU load''\<rparr>,
      RuntimeMetrics = \<lparr>CriticalCount = 1, DeviatingCount = 7, UnknownCount = 0\<rparr>\<rparr>"

definition diskMonitor :: MonitorOverview where
  "diskMonitor =
     \<lparr>Monitor = \<lparr>Id = 2, mon_Name = ''disk'', mon_Description = ''''\<rparr>,
      RuntimeMetrics = \<lparr>CriticalCount = 2, DeviatingCount = 0, UnknownCount = 0\<rparr>\<rparr>"

text \<open>A second monitor that carries the name of \<open>cpuMonitor\<close>.\<close>

definition cpuMonitor2 :: MonitorOverview where
  "cpuMonitor2 =
     \<lparr>Monitor = \<lparr>Id = 3, mon_Name = ''cpu'', mon_Description = ''CPU steal''\<rparr>,
      RuntimeMetrics = \<lparr>CriticalCount = 4, DeviatingCount = 0, UnknownCount = 0\<rparr>\<rparr>"

text \<open>
  A backend with no topology and no series, whose check-state lookup answers for the
  deviating state of monitor 1 only and whose label lookup fails for \<open>cpu_usage\<close>.
\<close>

definition exampleClient :: "MonitorOverview list \<Rightarrow> int Client" where
  "exampleClient monitors =
     \<lparr>SnapShotTopologyQuery = (\<lambda>q. Inr []),
      GetMonitorsOverview = Inr monitors,
      GetMonitorCheckStates =
        (\<lambda>i state limit offset.
           if i = ''1'' \<and> state = ''DEVIATING'' then Inr eightStates
           else if i = ''1'' then Inr []
           else Inl (Error ''timeout'')),
      ListMetricsNames = (\<lambda>s e. Inr [''cpu_usage'', ''cpu_idle'', ''mem_free'', ''cpu_temp'']),
      GetMetricLabels =
        (\<lambda>m s e. if m = ''cpu_usage'' then Inl (Error ''timeout'')
                  else if m = ''cpu_idle'' then Inr [] else Inr [''host'', ''zone'']),
      QueryRange = (\<lambda>q s e step timeout. Inr [])\<rparr>"

text \<open>
  Stand-ins for the regular expressions of Go: the pattern \<open>(\<close> does not compile, and
  any other pattern matches the names that start with it.
\<close>

definition exampleCompile :: "string \<Rightarrow> error + string" where
  "exampleCompile p =
     (if p = ''('' then Inl (Error ''error parsing regexp: missing closing )'') else Inr p)"

definition exampleMatch :: "string \<Rightarrow> string \<Rightarrow> bool" where
  "exampleMatch re m = (take (length re) m = re)"

definition exampleDuration :: "string \<Rightarrow> int option" where
  "exampleDuration s = (if s = ''1h'' then Some 3600 else None)"

definition seriesA :: "int MetricResult" where
  "seriesA =
     \<lparr>Labels = [(''__name__'', ''up''), (''job'', ''api''), (''env'', '''')],
      Points = [\<lparr>Timestamp = 20, Value = 1\<rparr>, \<lparr>Timestamp = 30, Value = 0\<rparr>]\<rparr>"

definition seriesA' :: "int MetricResult" where
  "seriesA' =
     \<lparr>Labels = [(''__name__'', ''up''), (''job'', ''api'')],
      Points = [\<lparr>Timestamp = 20, Value = 1\<rparr>, \<lparr>Timestamp = 30, Value = 0\<rparr>]\<rparr>"

definition seriesB :: "int MetricResult" where
  "seriesB =
     \<lparr>Labels = [(''instance'', ''a''), (''env'', ''prod'')],
      Points = [\<lparr>Timestamp = 10, Value = 1\<rparr>]\<rparr>"

section \<open>Facts about the query builder\<close>

lemma Join_Cons_Nil: "Join (x # xs) sep = [] \<Longrightarrow> x = []"
  by (cases xs) simp_all

lemma queryParts_spec:
  \<open>queryParts params =
     map (\<lambda>(field, v). field @ '' = "'' @ v @ ''"'')
       (filter (\<lambda>(field, v). v \<noteq> '''')
          [(''name'', NamePattern params), (''type'', Type params),
           (''layer'', Layer params), (''domain'', Domain params),
           (''healthstate'', HealthState params)])\<close>
  by (simp add: queryParts_def)

lemma queryParts_Nil_iff:
  "queryParts params = [] \<longleftrightarrow>
     NamePattern params = '''' \<and> Type params = '''' \<and> Layer params = '''' \<and>
     Domain params = '''' \<and> HealthState params = ''''"
  by (simp add: queryParts_def)

lemma queryParts_nonempty_elems: "x \<in> set (queryParts params) \<Longrightarrow> x \<noteq> []"
  by (auto simp: queryParts_spec)

lemma baseQuery_Join: "baseQuery params = Join (queryParts params) '' AND ''"
  by (cases "queryParts params") (simp_all add: baseQuery_def)

lemma baseQuery_Nil_iff: "baseQuery params = '''' \<longleftrightarrow> queryParts params = []"
proof
  assume h: "baseQuery params = ''''"
  show "queryParts params = []"
  proof (cases "queryParts params")
    case Nil
    then show ?thesis .
  next
    case (Cons a as)
    then have "a \<in> set (queryParts params)" by simp
    then have "a \<noteq> []" by (rule queryParts_nonempty_elems)
    moreover from h Cons have "a = []" by (simp add: baseQuery_Join Join_Cons_Nil)
    ultimately show ?thesis by simp
  qed
next
  assume "queryParts params = []"
  then show "baseQuery params = ''''" by (simp add: baseQuery_def)
qed

lemma GetComponents_calls:
  "buildQuery params = Inr q \<Longrightarrow> q \<noteq> '''' \<Longrightarrow>
     fst (GetComponents client params) = [SnapShotTopologyQueryCall q]"
  by (simp add: GetComponents_def split: sum.splits)

lemma GetComponents_invalid:
  "buildQuery params = Inl e \<Longrightarrow> GetComponents client params = ([], Inl e)"
  by (simp add: GetComponents_def)

lemma baseQuery_redisParams: \<open>baseQuery redisParams = ''name = "redis*"''\<close>
  by (simp add: baseQuery_def queryParts_def redisParams_def)

section \<open>Claims about GetComponents\<close>

text \<open>
  C1. When neighbours are requested, the raw query is empty and the named filters give a
  non-empty base expression, the query sent to the backend is
  \<open><base> OR withNeighborsOf(components = (<base>), levels = "<levels>", direction = "<direction>")\<close>,
  where an unspecified \<open>levels\<close> reads \<open>1\<close> and an unspecified direction reads \<open>both\<close>;
  for a direction other than \<open>up\<close>, \<open>down\<close> and \<open>both\<close> the call returns, with no backend
  call, the validation error that names the direction.
\<close>

theorem neighbor_rewrite:
  assumes "Query params = ''''" and "WithNeighbors params" and "baseQuery params \<noteq> ''''"
  shows \<open>let levels = (if WithNeighborsLevels params = '''' then ''1''
                       else WithNeighborsLevels params);
             direction = (if WithNeighborsDirection params = '''' then ''both''
                          else WithNeighborsDirection params)
         in (direction \<in> {''up'', ''down'', ''both''} \<longrightarrow>
               fst (GetComponents client params) =
                 [SnapShotTopologyQueryCall
                    (baseQuery params @ '' OR withNeighborsOf(components = ('' @ baseQuery params
                       @ ''), levels = "'' @ levels @ ''", direction = "'' @ direction @ ''")'')])
          \<and> (direction \<notin> {''up'', ''down'', ''both''} \<longrightarrow>
               GetComponents client params =
                 ([], Inl (Error (''invalid with_neighbors_direction '' @ squote @ direction
                            @ squote @ ''. Must be 'up', 'down', or 'both'' @ squote))))\<close>
proof -
  define levels where
    "levels = (if WithNeighborsLevels params = '''' then ''1'' else WithNeighborsLevels params)"
  define direction where
    "direction = (if WithNeighborsDirection params = '''' then ''both''
                  else WithNeighborsDirection params)"
  have bq: \<open>buildQuery params =
      (if \<not> validDirections direction then
         Inl (Error (''invalid with_neighbors_direction '' @ squote @ direction
                            @ squote @ ''. Must be 'up', 'down', or 'both'' @ squote))
       else Inr (baseQuery params @ '' OR '' @ ''withNeighborsOf(components = ('' @ baseQuery params
                       @ ''), levels = "'' @ levels @ ''", direction = "'' @ direction @ ''")''))\<close>
    unfolding buildQuery_def Let_def levels_def direction_def using assms by simp
  have v: "validDirections direction \<longleftrightarrow> direction \<in> {''up'', ''down'', ''both''}"
    unfolding validDirections_def by blast
  have ok: \<open>fst (GetComponents client params) =
                 [SnapShotTopologyQueryCall
                    (baseQuery params @ '' OR withNeighborsOf(components = ('' @ baseQuery params
                       @ ''), levels = "'' @ levels @ ''", direction = "'' @ direction @ ''")'')]\<close>
    if "direction \<in> {''up'', ''down'', ''both''}"
  proof -
    from that v bq
    have \<open>buildQuery params =
            Inr (baseQuery params @ '' OR '' @ ''withNeighborsOf(components = (''
                   @ baseQuery params @ ''), levels = "'' @ levels @ ''", direction = "''
                   @ direction @ ''")'')\<close>
      by simp
    from GetComponents_calls [OF this] assms(3) show ?thesis by simp
  qed
  have bad: \<open>GetComponents client params =
                 ([], Inl (Error (''invalid with_neighbors_direction '' @ squote @ direction
                            @ squote @ ''. Must be 'up', 'down', or 'both'' @ squote)))\<close>
    if "direction \<notin> {''up'', ''down'', ''both''}"
  proof -
    from that v bq
    have \<open>buildQuery params =
            Inl (Error (''invalid with_neighbors_direction '' @ squote @ direction
                   @ squote @ ''. Must be 'up', 'down', or 'both'' @ squote))\<close>
      by simp
    then show ?thesis by (rule GetComponents_invalid)
  qed
  from ok bad show ?thesis unfolding Let_def levels_def direction_def by blast
qed

theorem neighbor_rewrite_witness:
  \<open>Query redisParams = '''' \<and> WithNeighbors redisParams \<and> baseQuery redisParams \<noteq> '''' \<and>
   fst (GetComponents (exampleClient []) redisParams) =
     [SnapShotTopologyQueryCall
        ''name = "redis*" OR withNeighborsOf(components = (name = "redis*"), levels = "1", direction = "down")'']
   \<and> GetComponents (exampleClient []) (redisParams\<lparr>WithNeighborsDirection := ''sideways''\<rparr>) =
       ([], Inl (Error (''invalid with_neighbors_direction 'sideways'. Must be 'up', 'down', or 'both''
                  @ squote)))\<close>
proof -
  let ?bad = "redisParams\<lparr>WithNeighborsDirection := ''sideways''\<rparr>"
  have h1: "Query redisParams = ''''" and h2: "WithNeighbors redisParams"
    by (simp_all add: redisParams_def)
  have h3: "baseQuery redisParams \<noteq> ''''" by (simp add: baseQuery_redisParams)
  have g1: "Query ?bad = ''''" and g2: "WithNeighbors ?bad"
    by (simp_all add: redisParams_def)
  have b: "baseQuery ?bad = baseQuery redisParams"
    by (simp add: baseQuery_def queryParts_def)
  have g3: "baseQuery ?bad \<noteq> ''''"
    by (simp add: b baseQuery_redisParams)
  have d: "WithNeighborsDirection redisParams = ''down''" "WithNeighborsLevels redisParams = ''''"
    by (simp_all add: redisParams_def)
  from neighbor_rewrite [OF h1 h2 h3, of "exampleClient []"]
    neighbor_rewrite [OF g1 g2 g3, of "exampleClient []"] h1 h2 h3
  show ?thesis by (simp add: baseQuery_redisParams b d Let_def)
qed

text \<open>
  C2. With a non-empty raw query, the one backend call carries the raw query unchanged,
  and the whole result is the same whatever the named filters are: none of them reaches
  the query or the output.
\<close>

theorem raw_query_verbatim:
  assumes "Query params \<noteq> ''''"
  shows "fst (GetComponents client params) = [SnapShotTopologyQueryCall (Query params)]
       \<and> GetComponents client
            (params\<lparr>NamePattern := n, Type := t, Layer := l, Domain := d, HealthState := h\<rparr>)
          = GetComponents client params"
  using assms
  by (simp add: GetComponents_def buildQuery_def formatComponentsTable_def split: sum.splits)

theorem raw_query_verbatim_witness:
  "Query (redisParams\<lparr>Query := ''type = x''\<rparr>) \<noteq> '''' \<and>
   fst (GetComponents (exampleClient []) (redisParams\<lparr>Query := ''type = x''\<rparr>))
     = [SnapShotTopologyQueryCall ''type = x'']"
proof -
  have h: "Query (redisParams\<lparr>Query := ''type = x''\<rparr>) \<noteq> ''''" by simp
  from raw_query_verbatim [OF h, of "exampleClient []"] h show ?thesis by simp
qed

text \<open>
  C3. With an empty raw query, the base query built from the named filters is the
  \<open>AND\<close>-join of the clauses \<open>field = "value"\<close> of exactly the non-empty filters in the order
  name, type, layer, domain, healthstate; it is empty iff every named filter is empty; and
  without neighbour expansion it is the query sent to the backend.
\<close>

theorem base_query_and_join:
  assumes "Query params = ''''"
  shows "baseQuery params = spec_baseQuery params
       \<and> (baseQuery params = '''' \<longleftrightarrow>
            NamePattern params = '''' \<and> Type params = '''' \<and> Layer params = '''' \<and>
            Domain params = '''' \<and> HealthState params = '''')
       \<and> (\<not> WithNeighbors params \<and> baseQuery params \<noteq> '''' \<longrightarrow>
            fst (GetComponents client params) = [SnapShotTopologyQueryCall (baseQuery params)])"
proof (intro conjI)
  show "baseQuery params = spec_baseQuery params"
    by (simp only: baseQuery_Join queryParts_spec spec_baseQuery_def)
  show "baseQuery params = '''' \<longleftrightarrow>
            NamePattern params = '''' \<and> Type params = '''' \<and> Layer params = '''' \<and>
            Domain params = '''' \<and> HealthState params = ''''"
    by (simp only: baseQuery_Nil_iff queryParts_Nil_iff)
  show "\<not> WithNeighbors params \<and> baseQuery params \<noteq> '''' \<longrightarrow>
            fst (GetComponents client params) = [SnapShotTopologyQueryCall (baseQuery params)]"
    using assms by (simp add: GetComponents_def buildQuery_def split: sum.splits)
qed

theorem base_query_and_join_witness:
  \<open>Query (redisParams\<lparr>Type := ''pod''\<rparr>) = '''' \<and>
   baseQuery (redisParams\<lparr>Type := ''pod''\<rparr>) = ''name = "redis*" AND type = "pod"''\<close>
proof -
  have h: "Query (redisParams\<lparr>Type := ''pod''\<rparr>) = ''''" by (simp add: redisParams_def)
  from base_query_and_join [OF h, of "exampleClient []"] h show ?thesis
    by (simp add: spec_baseQuery_def redisParams_def)
qed

section \<open>Facts about the monitor rows\<close>

lemma listAffected_take:
  "listAffected monitor count states shown rows =
     rows @ map (componentRowOf monitor count) (take (maxComponents - shown) states)"
proof (induction states arbitrary: shown rows)
  case Nil
  then show ?case by simp
next
  case (Cons s states)
  show ?case
  proof (cases "shown \<ge> maxComponents")
    case True
    then show ?thesis by simp
  next
    case False
    then have "maxComponents - shown = Suc (maxComponents - (shown + 1))" by simp
    with False Cons.IH [of "shown + 1"] show ?thesis by simp
  qed
qed

lemma monitorRows_append:
  "monitorRows monitor count lookup rows = rows @ monitorRows monitor count lookup []"
  by (simp add: monitorRows_def listAffected_take Let_def split: sum.splits)

lemma monitorStep_rows:
  "snd (monitorStep client state (calls, rows) mo) = rows @ rowsOf client state mo"
  using monitorRows_append [of _ _ _ rows]
  by (simp add: monitorStep_def rowsOf_def Let_def)

lemma foldl_monitorStep_rows:
  "snd (foldl (monitorStep client state) (calls, rows) monitors) =
     rows @ concat (map (rowsOf client state) monitors)"
proof (induction monitors arbitrary: calls rows)
  case Nil
  then show ?case by simp
next
  case (Cons mo monitors)
  obtain calls' rows' where st: "monitorStep client state (calls, rows) mo = (calls', rows')"
    by (cases "monitorStep client state (calls, rows) mo")
  have "rows' = rows @ rowsOf client state mo"
    using monitorStep_rows [of client state calls rows mo] st by simp
  with Cons.IH [of calls' rows'] st show ?case by simp
qed

lemma collectRows_concat:
  "snd (collectRows client state monitors) = concat (map (rowsOf client state) monitors)"
  by (simp add: collectRows_def foldl_monitorStep_rows)

lemma collectRows_split:
  "snd (collectRows client state (pre @ mo # post)) =
     snd (collectRows client state pre) @ rowsOf client state mo
       @ snd (collectRows client state post)"
  by (simp add: collectRows_concat)

lemma rowsOf_more:
  assumes "stateCount state (RuntimeMetrics mo) \<noteq> 0"
    and "GetMonitorCheckStates client (show_int (Id (Monitor mo))) state 10 0 = Inr states"
    and "length states > 5"
  shows "rowsOf client state mo =
           map (componentRowOf (Monitor mo) (stateCount state (RuntimeMetrics mo))) (take 5 states)
           @ [\<lparr>row_Name = mon_Name (Monitor mo), row_Description = ''-'',
               AffectedCount = stateCount state (RuntimeMetrics mo),
               AffectedComponent = ''... and '' @ show_int (int (length states) - 5) @ '' more''\<rparr>]"
  using assms
  by (auto simp add: rowsOf_def monitorStep_def monitorRows_def listAffected_take Let_def
      maxComponents_def moreRow_def)

lemma rowsOf_fallback:
  assumes "stateCount state (RuntimeMetrics mo) \<noteq> 0"
    and "GetMonitorCheckStates client (show_int (Id (Monitor mo))) state 10 0 = Inl e
       \<or> GetMonitorCheckStates client (show_int (Id (Monitor mo))) state 10 0 = Inr []"
  shows "rowsOf client state mo =
           [\<lparr>row_Name = mon_Name (Monitor mo), row_Description = mon_Description (Monitor mo),
             AffectedCount = stateCount state (RuntimeMetrics mo), AffectedComponent = ''-''\<rparr>]"
  using assms
  by (auto simp add: rowsOf_def monitorStep_def monitorRows_def Let_def fallbackRow_def)

lemma monitorStep_skip:
  "stateCount state (RuntimeMetrics mo) = 0 \<Longrightarrow> monitorStep client state acc mo = acc"
  by (simp add: monitorStep_def Let_def)

lemma rowsOf_names:
  assumes nz: "stateCount state (RuntimeMetrics mo) \<noteq> 0"
  shows "row_Name ` set (rowsOf client state mo) = {mon_Name (Monitor mo)}"
proof -
  let ?m = "Monitor mo" and ?c = "stateCount state (RuntimeMetrics mo)"
  let ?lk = "GetMonitorCheckStates client (show_int (Id ?m)) state 10 0"
  have r: "rowsOf client state mo = monitorRows ?m ?c ?lk []"
    using nz by (simp add: rowsOf_def monitorStep_def Let_def)
  have n1: "row_Name (fallbackRow ?m ?c) = mon_Name ?m" by (simp add: fallbackRow_def)
  have n2: "\<And>n. row_Name (moreRow ?m ?c n) = mon_Name ?m" by (simp add: moreRow_def)
  have n3: "\<And>s. row_Name (componentRowOf ?m ?c s) = mon_Name ?m"
    by (simp add: componentRowOf_def Let_def)
  show ?thesis
  proof (cases ?lk)
    case (Inl e)
    then show ?thesis by (simp add: r monitorRows_def n1)
  next
    case (Inr states)
    show ?thesis
    proof (cases states)
      case Nil
      with Inr show ?thesis by (simp add: r monitorRows_def n1)
    next
      case (Cons s ss)
      have "take maxComponents (s # ss) = s # take (maxComponents - 1) ss"
        by (simp add: maxComponents_def)
      with Inr Cons show ?thesis
        by (auto simp add: r monitorRows_def listAffected_take Let_def n2 n3 image_Un
            dest: in_set_takeD)
    qed
  qed
qed

lemma collectRows_names:
  "row_Name ` set (snd (collectRows client state monitors)) = set (activeNames state monitors)"
proof (induction monitors)
  case Nil
  then show ?case by (simp add: collectRows_concat activeNames_def activeMonitors_def)
next
  case (Cons mo monitors)
  have split: "snd (collectRows client state (mo # monitors)) =
      rowsOf client state mo @ snd (collectRows client state monitors)"
    by (simp add: collectRows_concat)
  show ?case
  proof (cases "stateCount state (RuntimeMetrics mo) = 0")
    case True
    then have "rowsOf client state mo = []"
      by (simp add: rowsOf_def monitorStep_skip)
    with True Cons.IH split show ?thesis by (simp add: activeNames_def activeMonitors_def)
  next
    case False
    from rowsOf_names [OF False, of client] False Cons.IH split
    show ?thesis by (simp add: activeNames_def activeMonitors_def image_Un)
  qed
qed

lemma collectRows_active:
  "collectRows client state monitors = collectRows client state (activeMonitors state monitors)"
proof -
  have "foldl (monitorStep client state) acc monitors =
        foldl (monitorStep client state) acc (activeMonitors state monitors)" for acc
    by (induction monitors arbitrary: acc) (simp_all add: activeMonitors_def monitorStep_skip)
  then show ?thesis by (simp add: collectRows_def)
qed

lemma foldl_countStep:
  "foldl countStep (n, seen) rows =
     (n + int (card (row_Name ` set rows - {x. seen x})),
      (\<lambda>x. seen x \<or> x \<in> row_Name ` set rows))"
proof (induction rows arbitrary: n seen)
  case Nil
  then show ?case by simp
next
  case (Cons r rows)
  show ?case
  proof (cases "seen (row_Name r)")
    case True
    have eq: "row_Name ` set (r # rows) - {x. seen x} = row_Name ` set rows - {x. seen x}"
      using True by auto
    have "countStep (n, seen) r = (n, seen)" using True by (simp add: countStep_def)
    then show ?thesis using Cons.IH [of n seen] True unfolding eq by (auto simp: fun_eq_iff)
  next
    case False
    let ?seen = "seen(row_Name r := True)"
    define S where "S = row_Name ` set rows - {x. ?seen x}"
    have st: "countStep (n, seen) r = (n + 1, ?seen)" using False by (simp add: countStep_def)
    have eq: "row_Name ` set (r # rows) - {x. seen x} = insert (row_Name r) S"
      using False by (auto simp: S_def)
    have fin: "finite S" by (simp add: S_def)
    have notin: "row_Name r \<notin> S" by (simp add: S_def)
    have card: "card (row_Name ` set (r # rows) - {x. seen x}) = Suc (card S)"
      unfolding eq using fin notin by (rule card_insert_disjoint)
    have f2: "(\<lambda>x. ?seen x \<or> x \<in> row_Name ` set rows) =
              (\<lambda>x. seen x \<or> x \<in> row_Name ` set (r # rows))"
      by (auto simp: fun_eq_iff)
    have "foldl countStep (n, seen) (r # rows) = foldl countStep (n + 1, ?seen) rows"
      by (simp add: st)
    also have "\<dots> = (n + 1 + int (card S), (\<lambda>x. ?seen x \<or> x \<in> row_Name ` set rows))"
      unfolding S_def by (rule Cons.IH)
    also have "\<dots> = (n + int (card (row_Name ` set (r # rows) - {x. seen x})),
                      (\<lambda>x. seen x \<or> x \<in> row_Name ` set (r # rows)))"
      unfolding card f2 by simp
    finally show ?thesis .
  qed
qed

lemma countMonitors_card: "countMonitors rows = int (card (row_Name ` set rows))"
  by (simp add: countMonitors_def foldl_countStep)

lemma foldl_append_lines: "foldl (\<lambda>sb x. sb @ f x) sb xs = sb @ concat (map f xs)"
  by (induction xs arbitrary: sb) simp_all

lemma renderMonitors_table:
  "rows \<noteq> [] \<Longrightarrow> renderMonitors state rows = spec_monitorTable state rows"
  by (simp add: renderMonitors_def spec_monitorTable_def countMonitors_card foldl_append_lines
      Let_def)

lemma GetMonitors_ok:
  assumes "GetMonitorsOverview client = Inr monitors"
    and "state = (if State params = '''' then ''CRITICAL'' else State params)"
    and "validStates state"
  shows "GetMonitors client params =
           (fst (collectRows client state monitors),
            Inr (renderMonitors state (snd (collectRows client state monitors))))"
  using assms by (simp add: GetMonitors_def Let_def)

lemma show_int_digits:
  "show_int 0 = ''0''" "show_int 1 = ''1''" "show_int 2 = ''2''" "show_int 3 = ''3''"
  "show_int 4 = ''4''" "show_int 5 = ''5''" "show_int 6 = ''6''" "show_int 7 = ''7''"
  "show_int 8 = ''8''" "show_int 9 = ''9''"
  by (simp_all add: show_int_def show_nat.simps digit_def)

section \<open>Claims about GetMonitors\<close>

text \<open>
  C4. For a monitor that passes the counter gate and whose check-state lookup returns
  more than five entities, the rows it adds are five detail rows followed by exactly one
  continuation row, whose description is \<open>-\<close> and whose affected-component text is
  \<open>... and <k> more\<close> with \<open>k\<close> the number of returned entities minus five; the rows of
  the other monitors stand before and after, unchanged.
\<close>

theorem continuation_row:
  assumes "stateCount state (RuntimeMetrics mo) \<noteq> 0"
    and "GetMonitorCheckStates client (show_int (Id (Monitor mo))) state 10 0 = Inr states"
    and "length states > 5"
  shows "let count = stateCount state (RuntimeMetrics mo);
             more = \<lparr>row_Name = mon_Name (Monitor mo), row_Description = ''-'',
                      AffectedCount = count,
                      AffectedComponent =
                        ''... and '' @ show_int (int (length states) - 5) @ '' more''\<rparr>
         in snd (collectRows client state (pre @ mo # post)) =
              snd (collectRows client state pre)
                @ map (componentRowOf (Monitor mo) count) (take 5 states) @ [more]
                @ snd (collectRows client state post)
            \<and> length (take 5 states) = 5
            \<and> monitorLine more =
                ''| '' @ mon_Name (Monitor mo) @ '' | - | '' @ show_int count @ '' | ... and ''
                  @ show_int (int (length states) - 5) @ '' more |\<newline>''"
  using assms rowsOf_more [OF assms]
  by (simp add: collectRows_split Let_def monitorLine_def)

theorem continuation_row_witness:
  "stateCount ''DEVIATING'' (RuntimeMetrics cpuMonitor) \<noteq> 0 \<and>
   GetMonitorCheckStates (exampleClient [cpuMonitor]) (show_int (Id (Monitor cpuMonitor)))
     ''DEVIATING'' 10 0 = Inr eightStates \<and>
   length eightStates > 5 \<and>
   map AffectedComponent (snd (collectRows (exampleClient [cpuMonitor]) ''DEVIATING'' [cpuMonitor])) =
     [''pod (ID:1)'', ''pod (ID:2)'', ''pod (ID:3)'', ''pod (ID:4)'', ''pod (ID:5)'',
      ''... and 3 more'']"
proof -
  have h1: "stateCount ''DEVIATING'' (RuntimeMetrics cpuMonitor) \<noteq> 0"
    by (simp add: stateCount_def cpuMonitor_def)
  have h2: "GetMonitorCheckStates (exampleClient [cpuMonitor]) (show_int (Id (Monitor cpuMonitor)))
     ''DEVIATING'' 10 0 = Inr eightStates"
    by (simp add: exampleClient_def cpuMonitor_def show_int_digits)
  have h3: "length eightStates > 5" by (simp add: eightStates_def)
  have e: "snd (collectRows (exampleClient [cpuMonitor]) ''DEVIATING'' []) = []"
    by (simp add: collectRows_def)
  from continuation_row [OF h1 h2 h3, of "[]" "[]"] h1 h2 h3 show ?thesis
    by (simp add: e Let_def eightStates_def componentRowOf_def show_int_digits)
qed

text \<open>
  C5, as the code has it. When \<open>GetMonitors\<close> renders a table, the monitors whose counter
  for the requested state is zero add no rows and no backend calls; the count in the
  summary line is the number of distinct monitor names in the rows, which is the number
  of distinct names among the monitors whose counter is not zero, and equals the number
  of those monitors when their names are pairwise distinct.
\<close>

theorem summary_counts_distinct_names:
  assumes "GetMonitorsOverview client = Inr monitors"
    and "state = (if State params = '''' then ''CRITICAL'' else State params)"
    and "validStates state"
    and "snd (collectRows client state monitors) \<noteq> []"
  shows "collectRows client state monitors =
           collectRows client state (activeMonitors state monitors)
       \<and> snd (GetMonitors client params) =
           Inr (spec_monitorTable state (snd (collectRows client state monitors)))
       \<and> card (row_Name ` set (snd (collectRows client state monitors))) =
           card (set (activeNames state monitors))
       \<and> (distinct (activeNames state monitors) \<longrightarrow>
            card (row_Name ` set (snd (collectRows client state monitors))) =
              length (activeMonitors state monitors))"
proof (intro conjI)
  show "collectRows client state monitors =
           collectRows client state (activeMonitors state monitors)"
    by (rule collectRows_active)
  show "snd (GetMonitors client params) =
           Inr (spec_monitorTable state (snd (collectRows client state monitors)))"
    using GetMonitors_ok [OF assms(1-3)] renderMonitors_table [OF assms(4)] by simp
  have names: "row_Name ` set (snd (collectRows client state monitors)) =
               set (activeNames state monitors)"
    by (rule collectRows_names)
  show "card (row_Name ` set (snd (collectRows client state monitors))) =
           card (set (activeNames state monitors))"
    by (simp only: names)
  show "distinct (activeNames state monitors) \<longrightarrow>
            card (row_Name ` set (snd (collectRows client state monitors))) =
              length (activeMonitors state monitors)"
  proof
    assume "distinct (activeNames state monitors)"
    then have "card (set (activeNames state monitors)) = length (activeNames state monitors)"
      by (rule distinct_card)
    then show "card (row_Name ` set (snd (collectRows client state monitors))) =
              length (activeMonitors state monitors)"
      by (simp add: names activeNames_def)
  qed
qed

lemma rows_cpu_disk_deviating:
  "snd (collectRows (exampleClient [cpuMonitor, diskMonitor]) ''DEVIATING'' [cpuMonitor, diskMonitor]) =
     map (\<lambda>c. \<lparr>row_Name = ''cpu'', row_Description = ''CPU load'', AffectedCount = 7,
                  AffectedComponent = c\<rparr>)
       [''pod (ID:1)'', ''pod (ID:2)'', ''pod (ID:3)'', ''pod (ID:4)'', ''pod (ID:5)'']
     @ [\<lparr>row_Name = ''cpu'', row_Description = ''-'', AffectedCount = 7,
          AffectedComponent = ''... and 3 more''\<rparr>]"
  by (simp add: collectRows_def monitorStep_def monitorRows_def stateCount_def cpuMonitor_def
      diskMonitor_def exampleClient_def eightStates_def maxComponents_def componentRowOf_def
      moreRow_def show_int_digits Let_def)

theorem summary_counts_distinct_names_witness:
  "GetMonitorsOverview (exampleClient [cpuMonitor, diskMonitor]) = Inr [cpuMonitor, diskMonitor] \<and>
   validStates ''DEVIATING'' \<and>
   snd (collectRows (exampleClient [cpuMonitor, diskMonitor]) ''DEVIATING''
          [cpuMonitor, diskMonitor]) \<noteq> [] \<and>
   snd (GetMonitors (exampleClient [cpuMonitor, diskMonitor]) \<lparr>State = ''DEVIATING''\<rparr>) =
     Inr (''Found 1 monitor(s) in DEVIATING state:\<newline>\<newline>''
          @ ''| Monitor Name | Description | Affected Count | Affected Component |\<newline>''
          @ ''|---|---|---|---|\<newline>''
          @ ''| cpu | CPU load | 7 | pod (ID:1) |\<newline>''
          @ ''| cpu | CPU load | 7 | pod (ID:2) |\<newline>''
          @ ''| cpu | CPU load | 7 | pod (ID:3) |\<newline>''
          @ ''| cpu | CPU load | 7 | pod (ID:4) |\<newline>''
          @ ''| cpu | CPU load | 7 | pod (ID:5) |\<newline>''
          @ ''| cpu | - | 7 | ... and 3 more |\<newline>'')"
proof -
  let ?ms = "[cpuMonitor, diskMonitor]"
  have h1: "GetMonitorsOverview (exampleClient ?ms) = Inr ?ms"
    by (simp add: exampleClient_def)
  have h2: "''DEVIATING'' = (if State \<lparr>State = ''DEVIATING''\<rparr> = '''' then ''CRITICAL''
                             else State \<lparr>State = ''DEVIATING''\<rparr>)"
    by simp
  have h3: "validStates ''DEVIATING''" by (simp add: validStates_def)
  have h4: "snd (collectRows (exampleClient ?ms) ''DEVIATING'' ?ms) \<noteq> []"
    by (simp add: rows_cpu_disk_deviating)
  from summary_counts_distinct_names [OF h1 h2 h3 h4] h1 h3 h4 show ?thesis
    by (simp add: rows_cpu_disk_deviating spec_monitorTable_def monitorLine_def show_int_digits)
qed

theorem summary_count_counterexample:
  "snd (GetMonitors (exampleClient [cpuMonitor, cpuMonitor2]) \<lparr>State = ''CRITICAL''\<rparr>) =
     Inr (''Found 1 monitor(s) in CRITICAL state:\<newline>\<newline>''
          @ ''| Monitor Name | Description | Affected Count | Affected Component |\<newline>''
          @ ''|---|---|---|---|\<newline>''
          @ ''| cpu | CPU load | 1 | - |\<newline>''
          @ ''| cpu | CPU steal | 4 | - |\<newline>'')
   \<and> length (spec_positiveMonitors ''CRITICAL'' [cpuMonitor, cpuMonitor2]) = 2"
  by (simp add: GetMonitors_def validStates_def collectRows_def monitorStep_def monitorRows_def
      stateCount_def cpuMonitor_def cpuMonitor2_def exampleClient_def fallbackRow_def
      renderMonitors_def countMonitors_def countStep_def monitorLine_def show_int_digits
      spec_positiveMonitors_def Let_def)

section \<open>Facts about the metric list\<close>

lemma metricStep_snd:
  "snd (metricStep client s e (calls, sb) m) = sb @ metricLine client s e m"
  by (simp add: metricStep_def metricLine_def Let_def split: sum.splits)

lemma metricStep_fst:
  "fst (metricStep client s e (calls, sb) m) = calls @ [GetMetricLabelsCall m s e]"
  by (simp add: metricStep_def Let_def split: sum.splits)

lemma foldl_metricStep:
  "foldl (metricStep client s e) (calls, sb) ms =
     (calls @ map (\<lambda>m. GetMetricLabelsCall m s e) ms,
      sb @ concat (map (metricLine client s e) ms))"
proof (induction ms arbitrary: calls sb)
  case Nil
  then show ?case by simp
next
  case (Cons m ms)
  have "metricStep client s e (calls, sb) m =
          (calls @ [GetMetricLabelsCall m s e], sb @ metricLine client s e m)"
    using metricStep_fst [of client s e calls sb m] metricStep_snd [of client s e calls sb m]
    by (simp add: prod_eq_iff)
  then show ?case using Cons.IH by simp
qed

lemma foldl_filter: "foldl (\<lambda>fm m. if P m then fm @ [m] else fm) acc ms = acc @ filter P ms"
  by (induction ms arbitrary: acc) simp_all

lemma metricLine_degraded:
  "GetMetricLabels client m s e = Inl err \<or> GetMetricLabels client m s e = Inr [] \<Longrightarrow>
     metricLine client s e m = ''| '' @ m @ '' | - |\<newline>''"
  by (auto simp add: metricLine_def metricStep_def)

lemma ListMetrics_ok:
  assumes "SearchPattern params \<noteq> ''''"
    and "ListMetricsNames client (now - 3600) now = Inr metrics"
    and "compile (SearchPattern params) = Inr re"
    and "filter (matchString re) metrics \<noteq> []"
  shows "ListMetrics client compile matchString now params =
           (ListMetricsCall (now - 3600) now
              # map (\<lambda>m. GetMetricLabelsCall m (now - 3600) now)
                  (take maxMetrics (filter (matchString re) metrics)),
            Inr (spec_metricList client (now - 3600) now (SearchPattern params)
                   (filter (matchString re) metrics)))"
proof -
  let ?f = "filter (matchString re) metrics"
  have tk: "\<not> maxMetrics < length ?f \<Longrightarrow> take maxMetrics ?f = ?f" by simp
  show ?thesis
  proof (cases "maxMetrics < length ?f")
    case True
    with assms show ?thesis
      by (simp add: ListMetrics_def Let_def foldl_filter foldl_metricStep spec_metricList_def)
  next
    case False
    with assms tk show ?thesis
      by (simp add: ListMetrics_def Let_def foldl_filter foldl_metricStep spec_metricList_def)
  qed
qed

section \<open>Claims about errors and degraded lookups\<close>

text \<open>
  C6. A secondary lookup that fails or returns nothing never turns the result into an
  error. In \<open>GetMonitors\<close>, with a valid state and an overview that was fetched, the
  result is the table over the rows of all monitors, and a monitor past the counter gate
  whose check-state lookup failed or was empty adds the single row with \<open>-\<close> as affected
  component. In \<open>ListMetrics\<close>, with a pattern that compiles and a name listing that was
  fetched, the result is the metric list, and a processed metric whose label lookup
  failed or was empty is the line \<open>| name | - |\<close>. Each monitor's rows and each metric's
  line depend on its own lookup only.
\<close>

theorem degraded_lookup_placeholder:
  "(GetMonitorsOverview client = Inr monitors \<and>
    state = (if State params = '''' then ''CRITICAL'' else State params) \<and>
    validStates state \<and> mo \<in> set monitors \<and> stateCount state (RuntimeMetrics mo) \<noteq> 0 \<and>
    (GetMonitorCheckStates client (show_int (Id (Monitor mo))) state 10 0 = Inl e
     \<or> GetMonitorCheckStates client (show_int (Id (Monitor mo))) state 10 0 = Inr [])
    \<longrightarrow>
      snd (GetMonitors client params) =
        Inr (spec_monitorTable state (concat (map (rowsOf client state) monitors))) \<and>
      rowsOf client state mo =
        [\<lparr>row_Name = mon_Name (Monitor mo), row_Description = mon_Description (Monitor mo),
          AffectedCount = stateCount state (RuntimeMetrics mo), AffectedComponent = ''-''\<rparr>])
   \<and>
   (SearchPattern lparams \<noteq> '''' \<and> ListMetricsNames client (now - 3600) now = Inr metrics \<and>
    compile (SearchPattern lparams) = Inr re \<and>
    m \<in> set (take maxMetrics (filter (matchString re) metrics)) \<and>
    (GetMetricLabels client m (now - 3600) now = Inl e'
     \<or> GetMetricLabels client m (now - 3600) now = Inr [])
    \<longrightarrow>
      snd (ListMetrics client compile matchString now lparams) =
        Inr (spec_metricList client (now - 3600) now (SearchPattern lparams)
               (filter (matchString re) metrics)) \<and>
      metricLine client (now - 3600) now m = ''| '' @ m @ '' | - |\<newline>'')"
proof (intro conjI impI; (elim conjE)?)
  assume ov: "GetMonitorsOverview client = Inr monitors"
    and st: "state = (if State params = '''' then ''CRITICAL'' else State params)"
    and v: "validStates state" and mem: "mo \<in> set monitors"
    and nz: "stateCount state (RuntimeMetrics mo) \<noteq> 0"
    and lk: "GetMonitorCheckStates client (show_int (Id (Monitor mo))) state 10 0 = Inl e
     \<or> GetMonitorCheckStates client (show_int (Id (Monitor mo))) state 10 0 = Inr []"
  show fb: "rowsOf client state mo =
        [\<lparr>row_Name = mon_Name (Monitor mo), row_Description = mon_Description (Monitor mo),
          AffectedCount = stateCount state (RuntimeMetrics mo), AffectedComponent = ''-''\<rparr>]"
    using nz lk by (rule rowsOf_fallback)
  have "rowsOf client state mo \<in> set (map (rowsOf client state) monitors)"
    using mem by simp
  with fb have "concat (map (rowsOf client state) monitors) \<noteq> []"
    by (auto simp del: set_map)
  then have ne: "snd (collectRows client state monitors) \<noteq> []"
    by (simp add: collectRows_concat)
  show "snd (GetMonitors client params) =
        Inr (spec_monitorTable state (concat (map (rowsOf client state) monitors)))"
    using GetMonitors_ok [OF ov st v] renderMonitors_table [OF ne]
    by (simp add: collectRows_concat)
next
  assume p: "SearchPattern lparams \<noteq> ''''"
    and names: "ListMetricsNames client (now - 3600) now = Inr metrics"
    and c: "compile (SearchPattern lparams) = Inr re"
    and mem: "m \<in> set (take maxMetrics (filter (matchString re) metrics))"
    and lk: "GetMetricLabels client m (now - 3600) now = Inl e'
     \<or> GetMetricLabels client m (now - 3600) now = Inr []"
  from mem have ne: "filter (matchString re) metrics \<noteq> []" by auto
  show "snd (ListMetrics client compile matchString now lparams) =
        Inr (spec_metricList client (now - 3600) now (SearchPattern lparams)
               (filter (matchString re) metrics))"
    using ListMetrics_ok [where compile = compile and matchString = matchString, OF p names c ne]
    by simp
  show "metricLine client (now - 3600) now m = ''| '' @ m @ '' | - |\<newline>''"
    using lk by (rule metricLine_degraded)
qed

theorem degraded_lookup_placeholder_witness:
  "GetMonitorsOverview (exampleClient [cpuMonitor, diskMonitor]) = Inr [cpuMonitor, diskMonitor] \<and>
   validStates ''CRITICAL'' \<and> diskMonitor \<in> set [cpuMonitor, diskMonitor] \<and>
   stateCount ''CRITICAL'' (RuntimeMetrics diskMonitor) \<noteq> 0 \<and>
   GetMonitorCheckStates (exampleClient [cpuMonitor, diskMonitor])
     (show_int (Id (Monitor diskMonitor))) ''CRITICAL'' 10 0 = Inl (Error ''timeout'') \<and>
   snd (GetMonitors (exampleClient [cpuMonitor, diskMonitor]) \<lparr>State = ''''\<rparr>) =
     Inr (''Found 2 monitor(s) in CRITICAL state:\<newline>\<newline>''
          @ ''| Monitor Name | Description | Affected Count | Affected Component |\<newline>''
          @ ''|---|---|---|---|\<newline>''
          @ ''| cpu | CPU load | 1 | - |\<newline>''
          @ ''| disk | - | 2 | - |\<newline>'') \<and>
   ListMetricsNames (exampleClient [cpuMonitor, diskMonitor]) (7200 - 3600) 7200 =
     Inr [''cpu_usage'', ''cpu_idle'', ''mem_free'', ''cpu_temp''] \<and>
   exampleCompile ''cpu'' = Inr ''cpu'' \<and>
   GetMetricLabels (exampleClient [cpuMonitor, diskMonitor]) ''cpu_usage'' (7200 - 3600) 7200 =
     Inl (Error ''timeout'') \<and>
   snd (ListMetrics (exampleClient [cpuMonitor, diskMonitor]) exampleCompile exampleMatch 7200
          \<lparr>SearchPattern = ''cpu''\<rparr>) =
     Inr (''Found 3 metrics matching '' @ squote @ ''cpu'' @ squote @ '':\<newline>\<newline>''
          @ ''| Metric Name | Labels |\<newline>''
          @ ''|---|---|\<newline>''
          @ ''| cpu_usage | - |\<newline>''
          @ ''| cpu_idle | - |\<newline>''
          @ ''| cpu_temp | host, zone |\<newline>'')"
proof -
  let ?ms = "[cpuMonitor, diskMonitor]"
  let ?c = "exampleClient ?ms"
  let ?names = "[''cpu_usage'', ''cpu_idle'', ''mem_free'', ''cpu_temp'']"
  have a1: "GetMonitorsOverview ?c = Inr ?ms" by (simp add: exampleClient_def)
  have a2: "''CRITICAL'' = (if State \<lparr>State = ''''\<rparr> = '''' then ''CRITICAL''
                            else State \<lparr>State = ''''\<rparr>)"
    by simp
  have a3: "validStates ''CRITICAL''" by (simp add: validStates_def)
  have a4: "diskMonitor \<in> set ?ms" by simp
  have a5: "stateCount ''CRITICAL'' (RuntimeMetrics diskMonitor) \<noteq> 0"
    by (simp add: stateCount_def diskMonitor_def)
  have a6: "GetMonitorCheckStates ?c (show_int (Id (Monitor diskMonitor))) ''CRITICAL'' 10 0 =
              Inl (Error ''timeout'')"
    by (simp add: exampleClient_def diskMonitor_def show_int_digits)
  have b1: "SearchPattern \<lparr>SearchPattern = ''cpu''\<rparr> \<noteq> ''''" by simp
  have b2: "ListMetricsNames ?c (7200 - 3600) 7200 = Inr ?names" by (simp add: exampleClient_def)
  have b3: "exampleCompile (SearchPattern \<lparr>SearchPattern = ''cpu''\<rparr>) = Inr ''cpu''"
    by (simp add: exampleCompile_def)
  have f: "filter (exampleMatch ''cpu'') ?names = [''cpu_usage'', ''cpu_idle'', ''cpu_temp'']"
    by (simp add: exampleMatch_def)
  have b4: "''cpu_usage'' \<in> set (take maxMetrics (filter (exampleMatch ''cpu'') ?names))"
    unfolding f by (simp add: maxMetrics_def)
  have b5: "GetMetricLabels ?c ''cpu_usage'' (7200 - 3600) 7200 = Inl (Error ''timeout'')"
    by (simp add: exampleClient_def)
  have rows: "concat (map (rowsOf ?c ''CRITICAL'') ?ms) =
      [\<lparr>row_Name = ''cpu'', row_Description = ''CPU load'', AffectedCount = 1,
         AffectedComponent = ''-''\<rparr>,
       \<lparr>row_Name = ''disk'', row_Description = '''', AffectedCount = 2,
         AffectedComponent = ''-''\<rparr>]"
    by (simp add: rowsOf_def monitorStep_def monitorRows_def stateCount_def cpuMonitor_def
        diskMonitor_def exampleClient_def fallbackRow_def show_int_digits Let_def)
  note T = degraded_lookup_placeholder [where client = ?c and monitors = ?ms
      and state = "''CRITICAL''" and params = "\<lparr>State = ''''\<rparr>" and mo = diskMonitor
      and e = "Error ''timeout''" and lparams = "\<lparr>SearchPattern = ''cpu''\<rparr>" and now = 7200
      and metrics = ?names and compile = exampleCompile and re = "''cpu''"
      and matchString = exampleMatch and m = "''cpu_usage''" and e' = "Error ''timeout''"]
  from T a1 a2 a3 a4 a5 a6 b1 b2 b3 b4 b5
  have g: "snd (GetMonitors ?c \<lparr>State = ''''\<rparr>) =
             Inr (spec_monitorTable ''CRITICAL'' (concat (map (rowsOf ?c ''CRITICAL'') ?ms)))"
    and l: "snd (ListMetrics ?c exampleCompile exampleMatch 7200 \<lparr>SearchPattern = ''cpu''\<rparr>) =
             Inr (spec_metricList ?c (7200 - 3600) 7200 ''cpu''
                    (filter (exampleMatch ''cpu'') ?names))"
    by simp_all
  have g': "spec_monitorTable ''CRITICAL'' (concat (map (rowsOf ?c ''CRITICAL'') ?ms)) =
      ''Found 2 monitor(s) in CRITICAL state:\<newline>\<newline>''
          @ ''| Monitor Name | Description | Affected Count | Affected Component |\<newline>''
          @ ''|---|---|---|---|\<newline>''
          @ ''| cpu | CPU load | 1 | - |\<newline>''
          @ ''| disk | - | 2 | - |\<newline>''"
    unfolding rows by (simp add: spec_monitorTable_def monitorLine_def show_int_digits)
  have l': "spec_metricList ?c (7200 - 3600) 7200 ''cpu'' (filter (exampleMatch ''cpu'') ?names) =
      ''Found 3 metrics matching '' @ squote @ ''cpu'' @ squote @ '':\<newline>\<newline>''
          @ ''| Metric Name | Labels |\<newline>''
          @ ''|---|---|\<newline>''
          @ ''| cpu_usage | - |\<newline>''
          @ ''| cpu_idle | - |\<newline>''
          @ ''| cpu_temp | host, zone |\<newline>''"
    unfolding f
    by (simp add: spec_metricList_def maxMetrics_def metricLine_def metricStep_def
        exampleClient_def show_int_digits)
  from a1 a3 a4 a5 a6 b2 b3 b5 g l show ?thesis
    unfolding g' l' by simp
qed

text \<open>
  C7, as the code has it. The validation errors of \<open>GetComponents\<close> (no filter and no
  query, neighbours without a base filter, an invalid direction), of \<open>GetMonitors\<close> (an
  invalid state) and the empty search pattern of \<open>ListMetrics\<close> are returned with no
  backend call. A pattern that does not compile is reported by \<open>ListMetrics\<close> after the
  call that lists the metric names, when that call succeeded.
\<close>

theorem validation_errors_before_backend:
  "(Query gp = '''' \<and> baseQuery gp = '''' \<longrightarrow>
      GetComponents client gp =
        ([], Inl (Error
               (if WithNeighbors gp
                then ''with_neighbors requires at least one filter to define the components''
                else ''either 'query' or at least one filter ''
                       @ ''(name_pattern, type, layer, domain, healthstate) must be provided''))))
   \<and> (Query gp = '''' \<and> baseQuery gp \<noteq> '''' \<and> WithNeighbors gp \<and>
        direction = (if WithNeighborsDirection gp = '''' then ''both''
                     else WithNeighborsDirection gp) \<and>
        direction \<notin> {''up'', ''down'', ''both''} \<longrightarrow>
      GetComponents client gp =
        ([], Inl (Error (''invalid with_neighbors_direction '' @ squote @ direction @ squote
                   @ ''. Must be 'up', 'down', or 'both'' @ squote))))
   \<and> (state = (if State mp = '''' then ''CRITICAL'' else State mp) \<and>
        state \<notin> {''CRITICAL'', ''DEVIATING'', ''UNKNOWN''} \<longrightarrow>
      GetMonitors client mp =
        ([], Inl (Error (''invalid state '' @ squote @ state @ squote
                   @ ''. Allowed values: CRITICAL, DEVIATING, UNKNOWN''))))
   \<and> (SearchPattern lp = '''' \<longrightarrow>
      ListMetrics client compile matchString now lp =
        ([], Inl (Error ''search_pattern is required'')))
   \<and> (SearchPattern lp \<noteq> '''' \<and> ListMetricsNames client (now - 3600) now = Inr metrics \<and>
        compile (SearchPattern lp) = Inl err \<longrightarrow>
      ListMetrics client compile matchString now lp =
        ([ListMetricsCall (now - 3600) now],
         Inl (Error (''invalid regex pattern: '' @ errmsg err))))"
proof (intro conjI impI; (elim conjE)?)
  assume "Query gp = ''''" and "baseQuery gp = ''''"
  then show "GetComponents client gp =
        ([], Inl (Error
               (if WithNeighbors gp
                then ''with_neighbors requires at least one filter to define the components''
                else ''either 'query' or at least one filter ''
                       @ ''(name_pattern, type, layer, domain, healthstate) must be provided'')))"
    by (simp add: GetComponents_def buildQuery_def)
next
  assume "Query gp = ''''" and "baseQuery gp \<noteq> ''''" and "WithNeighbors gp"
    and "direction = (if WithNeighborsDirection gp = '''' then ''both''
                     else WithNeighborsDirection gp)"
    and "direction \<notin> {''up'', ''down'', ''both''}"
  then have "buildQuery gp =
      Inl (Error (''invalid with_neighbors_direction '' @ squote @ direction @ squote
                   @ ''. Must be 'up', 'down', or 'both'' @ squote))"
    by (simp add: buildQuery_def validDirections_def Let_def)
  then show "GetComponents client gp =
        ([], Inl (Error (''invalid with_neighbors_direction '' @ squote @ direction @ squote
                   @ ''. Must be 'up', 'down', or 'both'' @ squote)))"
    by (rule GetComponents_invalid)
next
  assume "state = (if State mp = '''' then ''CRITICAL'' else State mp)"
    and "state \<notin> {''CRITICAL'', ''DEVIATING'', ''UNKNOWN''}"
  then show "GetMonitors client mp =
        ([], Inl (Error (''invalid state '' @ squote @ state @ squote
                   @ ''. Allowed values: CRITICAL, DEVIATING, UNKNOWN'')))"
    by (simp add: GetMonitors_def validStates_def Let_def)
next
  assume "SearchPattern lp = ''''"
  then show "ListMetrics client compile matchString now lp =
        ([], Inl (Error ''search_pattern is required''))"
    by (simp add: ListMetrics_def)
next
  assume "SearchPattern lp \<noteq> ''''" and "ListMetricsNames client (now - 3600) now = Inr metrics"
    and "compile (SearchPattern lp) = Inl err"
  then show "ListMetrics client compile matchString now lp =
        ([ListMetricsCall (now - 3600) now],
         Inl (Error (''invalid regex pattern: '' @ errmsg err)))"
    by (simp add: ListMetrics_def Let_def)
qed

theorem validation_errors_before_backend_witness:
  "Query noFilterParams = '''' \<and> baseQuery noFilterParams = '''' \<and>
   GetComponents (exampleClient []) noFilterParams =
     ([], Inl (Error (''either 'query' or at least one filter ''
                  @ ''(name_pattern, type, layer, domain, healthstate) must be provided''))) \<and>
   GetMonitors (exampleClient []) \<lparr>State = ''CLEAR''\<rparr> =
     ([], Inl (Error (''invalid state 'CLEAR'. Allowed values: CRITICAL, DEVIATING, UNKNOWN''))) \<and>
   ListMetrics (exampleClient []) exampleCompile exampleMatch 7200 \<lparr>SearchPattern = ''''\<rparr> =
     ([], Inl (Error ''search_pattern is required'')) \<and>
   ListMetrics (exampleClient []) exampleCompile exampleMatch 7200 \<lparr>SearchPattern = ''(''\<rparr> =
     ([ListMetricsCall 3600 7200],
      Inl (Error ''invalid regex pattern: error parsing regexp: missing closing )''))"
proof -
  let ?c = "exampleClient []"
  have q: "Query noFilterParams = ''''" and nw: "\<not> WithNeighbors noFilterParams"
    by (simp_all add: noFilterParams_def)
  have b: "baseQuery noFilterParams = ''''"
    by (simp add: baseQuery_def queryParts_def noFilterParams_def)
  have n: "ListMetricsNames ?c (7200 - 3600) 7200 =
             Inr [''cpu_usage'', ''cpu_idle'', ''mem_free'', ''cpu_temp'']"
    by (simp add: exampleClient_def)
  have c: "exampleCompile ''('' = Inl (Error ''error parsing regexp: missing closing )'')"
    by (simp add: exampleCompile_def)
  note T1 = validation_errors_before_backend [where gp = noFilterParams and client = ?c
      and mp = "\<lparr>State = ''CLEAR''\<rparr>" and state = "''CLEAR''"
      and lp = "\<lparr>SearchPattern = ''''\<rparr>" and compile = exampleCompile
      and matchString = exampleMatch and now = 7200]
  note T2 = validation_errors_before_backend [where gp = noFilterParams and client = ?c
      and lp = "\<lparr>SearchPattern = ''(''\<rparr>" and compile = exampleCompile
      and matchString = exampleMatch and now = 7200
      and metrics = "[''cpu_usage'', ''cpu_idle'', ''mem_free'', ''cpu_temp'']"
      and err = "Error ''error parsing regexp: missing closing )''"]
  from T1 T2 q nw b n c show ?thesis by simp
qed

theorem regex_error_after_backend_call_counterexample:
  "ListMetrics (exampleClient []) exampleCompile exampleMatch 7200 \<lparr>SearchPattern = ''(''\<rparr> =
     ([ListMetricsCall 3600 7200],
      Inl (Error ''invalid regex pattern: error parsing regexp: missing closing )''))
   \<and> fst (ListMetrics (exampleClient []) exampleCompile exampleMatch 7200
             \<lparr>SearchPattern = ''(''\<rparr>) \<noteq> []"
  by (simp add: ListMetrics_def exampleClient_def exampleCompile_def Let_def)

section \<open>Facts about the metric table\<close>

lemma insertKeys_set:
  "set (foldl (\<lambda>labelKeys k. if k \<noteq> ''__name__'' then List.insert k labelKeys else labelKeys)
          acc ks) = set acc \<union> (set ks - {''__name__''})"
  by (induction ks arbitrary: acc) auto

lemma insertKeys_distinct:
  "distinct acc \<Longrightarrow>
     distinct (foldl (\<lambda>labelKeys k. if k \<noteq> ''__name__'' then List.insert k labelKeys
                                     else labelKeys) acc ks)"
  by (induction ks arbitrary: acc) simp_all

lemma collectKeys_fold_set:
  "set (foldl (\<lambda>labelKeys res.
                foldl (\<lambda>labelKeys k. if k \<noteq> ''__name__'' then List.insert k labelKeys
                                      else labelKeys)
                  labelKeys (map fst (Labels res))) acc ms)
   = set acc \<union> ((\<Union>res \<in> set ms. fst ` set (Labels res)) - {''__name__''})"
proof (induction ms arbitrary: acc)
  case Nil
  then show ?case by simp
next
  case (Cons m ms)
  show ?case by (simp add: Cons.IH insertKeys_set) blast
qed

lemma collectKeys_fold_distinct:
  "distinct acc \<Longrightarrow>
   distinct (foldl (\<lambda>labelKeys res.
                foldl (\<lambda>labelKeys k. if k \<noteq> ''__name__'' then List.insert k labelKeys
                                      else labelKeys)
                  labelKeys (map fst (Labels res))) acc ms)"
proof (induction ms arbitrary: acc)
  case Nil
  then show ?case by simp
next
  case (Cons m ms)
  from Cons.prems show ?case by (simp add: Cons.IH insertKeys_distinct)
qed

lemma set_collectLabelKeys:
  "set (collectLabelKeys ms) = (\<Union>res \<in> set ms. fst ` set (Labels res)) - {''__name__''}"
  by (simp add: collectLabelKeys_def collectKeys_fold_set)

lemma distinct_collectLabelKeys: "distinct (collectLabelKeys ms)"
  by (simp add: collectLabelKeys_def collectKeys_fold_distinct)

lemma sort_collectLabelKeys: "sort (collectLabelKeys ms) = spec_columns ms"
proof -
  have "spec_columns ms = sorted_list_of_set (set (collectLabelKeys ms))"
    by (simp only: spec_columns_def set_collectLabelKeys)
  also have "\<dots> = sort (remdups (collectLabelKeys ms))"
    by (rule sorted_list_of_set_sort_remdups)
  also have "\<dots> = sort (collectLabelKeys ms)"
    by (simp add: distinct_remdups_id distinct_collectLabelKeys)
  finally show ?thesis by simp
qed

lemma pointRow_append:
  "pointRow fmtTime fmtValue columns res sb p = sb @ spec_metricRow fmtTime fmtValue columns res p"
  by (simp add: pointRow_def spec_metricRow_def foldl_append_lines Let_def)

lemma foldl_pointRow:
  "foldl (pointRow fmtTime fmtValue columns res) sb ps =
     sb @ concat (map (spec_metricRow fmtTime fmtValue columns res) ps)"
  by (induction ps arbitrary: sb) (simp_all add: pointRow_append)

lemma foldl_series:
  "foldl (\<lambda>sb res. foldl (pointRow fmtTime fmtValue columns res) sb (Points res)) sb ms =
     sb @ concat (map (\<lambda>res. concat (map (spec_metricRow fmtTime fmtValue columns res)
                                        (Points res))) ms)"
  by (induction ms arbitrary: sb) (simp_all add: foldl_pointRow)

lemma formatMetrics_table:
  "ms \<noteq> [] \<Longrightarrow> formatMetrics fmtTime fmtValue ms q = spec_metricTable fmtTime fmtValue ms"
  by (simp add: formatMetrics_def spec_metricTable_def sort_collectLabelKeys foldl_series
      foldl_append_lines Let_def)

lemma labelCell_absent:
  assumes "k \<notin> fst ` set (Labels res)"
  shows "labelCell res k = '' - |''"
proof -
  from assms have "map_of (Labels res) k = None" by (simp add: map_of_eq_None_iff)
  then show ?thesis by (simp add: labelCell_def labelValue_def)
qed

lemma labelCell_present:
  "map_of (Labels res) k = Some v \<Longrightarrow> v \<noteq> '''' \<Longrightarrow> labelCell res k = '' '' @ v @ '' |''"
  by (simp add: labelCell_def labelValue_def)

lemma labelCell_empty: "map_of (Labels res) k = Some '''' \<Longrightarrow> labelCell res k = '' - |''"
  by (simp add: labelCell_def labelValue_def)

section \<open>Claims about the metric table\<close>

text \<open>
  C8. For a non-empty sequence of series, the table has one label column for each key of
  the lexicographically sorted union of the label keys of all series without
  \<open>__name__\<close>; a series that lacks a key shows \<open>-\<close> in its column, and one that carries
  it with a non-empty value shows the value; the rows follow the series in input order,
  and within a series its samples in input order.
\<close>

theorem metric_table_columns_and_rows:
  assumes "metricsResult \<noteq> []"
  shows "formatMetrics fmtTime fmtValue metricsResult queryName =
           spec_metricTable fmtTime fmtValue metricsResult
       \<and> (k \<notin> fst ` set (Labels res) \<longrightarrow> labelCell res k = '' - |'')
       \<and> (map_of (Labels res) k = Some v \<and> v \<noteq> '''' \<longrightarrow> labelCell res k = '' '' @ v @ '' |'')"
  using assms formatMetrics_table labelCell_absent labelCell_present by blast

theorem metric_table_columns_and_rows_witness:
  "[seriesA, seriesB] \<noteq> [] \<and>
   spec_columns [seriesA, seriesB] = [''env'', ''instance'', ''job''] \<and>
   formatMetrics show_int show_int [seriesA, seriesB] ''up'' =
     ''| Timestamp | Value | env | instance | job |\<newline>''
     @ ''|---|---|---|---|---|\<newline>''
     @ ''| 20 | 1 | - | - | api |\<newline>''
     @ ''| 30 | 0 | - | - | api |\<newline>''
     @ ''| 10 | 1 | prod | a | - |\<newline>''"
proof -
  have h: "[seriesA, seriesB] \<noteq> []" by simp
  have n: "show_int 10 = ''10''" "show_int 20 = ''20''" "show_int 30 = ''30''"
    by (simp_all add: show_int_def show_nat.simps digit_def)
  have keys: "collectLabelKeys [seriesA, seriesB] = [''instance'', ''env'', ''job'']"
    by (simp add: collectLabelKeys_def seriesA_def seriesB_def)
  have "sort (collectLabelKeys [seriesA, seriesB]) = [''env'', ''instance'', ''job'']"
    unfolding keys by simp
  then have cols: "spec_columns [seriesA, seriesB] = [''env'', ''instance'', ''job'']"
    by (simp only: sort_collectLabelKeys)
  have tbl: "spec_metricTable show_int show_int [seriesA, seriesB] =
     ''| Timestamp | Value | env | instance | job |\<newline>''
     @ ''|---|---|---|---|---|\<newline>''
     @ ''| 20 | 1 | - | - | api |\<newline>''
     @ ''| 30 | 0 | - | - | api |\<newline>''
     @ ''| 10 | 1 | prod | a | - |\<newline>''"
    unfolding spec_metricTable_def cols Let_def
    by (simp add: spec_metricRow_def labelCell_def labelValue_def seriesA_def seriesB_def
        show_int_digits n)
  from metric_table_columns_and_rows [where fmtTime = show_int and fmtValue = show_int
      and queryName = "''up''", OF h, THEN conjunct1] h cols tbl
  show ?thesis by simp
qed

text \<open>
  C10, as the code has it. In a label column, a series that carries the key with the
  empty string as value and a series that lacks the key both show \<open>-\<close>, so against the
  same columns their rows are the same, and the rendered tables are the same when another
  series of the response carries the key too. The key itself still counts for the
  columns: a key carried with the empty string has a column (unless it is \<open>__name__\<close>),
  and a key that no series carries has none.
\<close>

theorem empty_label_value_same_cell:
  assumes "map_of (Labels r1) k = Some ''''"
    and "map_of (Labels r2) = (map_of (Labels r1))(k := None)"
    and "Points r2 = Points r1"
  shows "labelCell r1 k = '' - |'' \<and> labelCell r2 k = '' - |''
       \<and> pointRow fmtTime fmtValue columns r1 sb p = pointRow fmtTime fmtValue columns r2 sb p
       \<and> (k \<in> set (collectLabelKeys (pre @ post)) \<longrightarrow>
            formatMetrics fmtTime fmtValue (pre @ r1 # post) q =
              formatMetrics fmtTime fmtValue (pre @ r2 # post) q)
       \<and> (k \<noteq> ''__name__'' \<longrightarrow> k \<in> set (sort (collectLabelKeys (pre @ r1 # post))))
       \<and> (k \<notin> set (collectLabelKeys (pre @ post)) \<longrightarrow>
            k \<notin> set (sort (collectLabelKeys (pre @ r2 # post))))"
proof (intro conjI impI)
  show c1: "labelCell r1 k = '' - |''"
    using assms(1) by (rule labelCell_empty)
  have none: "map_of (Labels r2) k = None" using assms(2) by simp
  show c2: "labelCell r2 k = '' - |''"
    using none by (simp add: labelCell_def labelValue_def)
  have cell: "labelCell r1 k' = labelCell r2 k'" for k'
  proof (cases "k' = k")
    case True
    with c1 c2 show ?thesis by simp
  next
    case False
    with assms(2) have "map_of (Labels r2) k' = map_of (Labels r1) k'" by simp
    then show ?thesis by (simp add: labelCell_def labelValue_def)
  qed
  then have cells: "labelCell r1 = labelCell r2" by (rule ext)
  have row: "spec_metricRow fmtTime fmtValue cs r1 = spec_metricRow fmtTime fmtValue cs r2"
    for cs
    by (rule ext) (simp add: spec_metricRow_def cells)
  show "pointRow fmtTime fmtValue columns r1 sb p = pointRow fmtTime fmtValue columns r2 sb p"
    by (simp add: pointRow_append row)
  have d1: "fst ` set (Labels r1) = dom (map_of (Labels r1))"
    by (simp add: dom_map_of_conv_image_fst)
  have d2: "fst ` set (Labels r2) = dom (map_of (Labels r2))"
    by (simp add: dom_map_of_conv_image_fst)
  have d: "fst ` set (Labels r1) = insert k (fst ` set (Labels r2))"
    unfolding d1 d2 using assms(1,2) by auto
  have k2: "k \<notin> fst ` set (Labels r2)"
    unfolding d2 using none by auto
  show "k \<in> set (sort (collectLabelKeys (pre @ r1 # post)))" if "k \<noteq> ''__name__''"
    using that by (simp add: set_collectLabelKeys d)
  show "k \<notin> set (sort (collectLabelKeys (pre @ r2 # post)))"
    if "k \<notin> set (collectLabelKeys (pre @ post))"
    using that k2 by (simp add: set_collectLabelKeys)
  assume kin: "k \<in> set (collectLabelKeys (pre @ post))"
  have "set (collectLabelKeys (pre @ r1 # post)) = set (collectLabelKeys (pre @ r2 # post))"
    using kin unfolding set_collectLabelKeys by (auto simp: d)
  then have cols: "spec_columns (pre @ r1 # post) = spec_columns (pre @ r2 # post)"
    by (simp only: spec_columns_def set_collectLabelKeys)
  have "spec_metricTable fmtTime fmtValue (pre @ r1 # post) =
        spec_metricTable fmtTime fmtValue (pre @ r2 # post)"
    by (simp add: spec_metricTable_def cols row assms(3) Let_def)
  then show "formatMetrics fmtTime fmtValue (pre @ r1 # post) q =
              formatMetrics fmtTime fmtValue (pre @ r2 # post) q"
    by (simp add: formatMetrics_table)
qed

theorem empty_label_value_same_cell_witness:
  "map_of (Labels seriesA) ''env'' = Some '''' \<and>
   map_of (Labels seriesA') = (map_of (Labels seriesA))(''env'' := None) \<and>
   Points seriesA' = Points seriesA \<and>
   ''env'' \<in> set (collectLabelKeys ([] @ [seriesB])) \<and>
   formatMetrics show_int show_int [seriesA', seriesB] ''up'' =
     formatMetrics show_int show_int [seriesA, seriesB] ''up'' \<and>
   ''env'' \<in> set (sort (collectLabelKeys [seriesA])) \<and>
   ''env'' \<notin> set (sort (collectLabelKeys [seriesA']))"
proof -
  have h1: "map_of (Labels seriesA) ''env'' = Some ''''" by (simp add: seriesA_def)
  have h2: "map_of (Labels seriesA') = (map_of (Labels seriesA))(''env'' := None)"
    by (auto simp add: seriesA_def seriesA'_def fun_eq_iff)
  have h3: "Points seriesA' = Points seriesA" by (simp add: seriesA_def seriesA'_def)
  have h4: "''env'' \<in> set (collectLabelKeys ([] @ [seriesB]))"
    by (simp add: collectLabelKeys_def seriesB_def)
  have h5: "''env'' \<notin> set (collectLabelKeys ([] @ []))"
    by (simp add: collectLabelKeys_def)
  note T1 = empty_label_value_same_cell [where fmtTime = show_int and fmtValue = show_int
      and pre = "[]" and post = "[seriesB]" and q = "''up''", OF h1 h2 h3, THEN conjunct2,
      THEN conjunct2, THEN conjunct2, THEN conjunct1]
  note T2 = empty_label_value_same_cell [where pre = "[]" and post = "[]", OF h1 h2 h3,
      THEN conjunct2, THEN conjunct2, THEN conjunct2, THEN conjunct2]
  note T3 = T2 [THEN conjunct2, rule_format, OF h5]
  from T1 T2 T3 h1 h2 h3 h4 show ?thesis by simp
qed

theorem empty_label_value_column_counterexample:
  "map_of (Labels seriesA) ''env'' = Some '''' \<and>
   map_of (Labels seriesA') = (map_of (Labels seriesA))(''env'' := None) \<and>
   Points seriesA' = Points seriesA \<and>
   formatMetrics show_int show_int [seriesA] ''up'' =
     ''| Timestamp | Value | env | job |\<newline>''
     @ ''|---|---|---|---|\<newline>''
     @ ''| 20 | 1 | - | api |\<newline>''
     @ ''| 30 | 0 | - | api |\<newline>'' \<and>
   formatMetrics show_int show_int [seriesA'] ''up'' =
     ''| Timestamp | Value | job |\<newline>''
     @ ''|---|---|---|\<newline>''
     @ ''| 20 | 1 | api |\<newline>''
     @ ''| 30 | 0 | api |\<newline>'' \<and>
   formatMetrics show_int show_int [seriesA] ''up'' \<noteq>
     formatMetrics show_int show_int [seriesA'] ''up''"
proof -
  have h1: "map_of (Labels seriesA) ''env'' = Some ''''" by (simp add: seriesA_def)
  have h2: "map_of (Labels seriesA') = (map_of (Labels seriesA))(''env'' := None)"
    by (auto simp add: seriesA_def seriesA'_def fun_eq_iff)
  have h3: "Points seriesA' = Points seriesA" by (simp add: seriesA_def seriesA'_def)
  have n: "show_int 20 = ''20''" "show_int 30 = ''30''"
    by (simp_all add: show_int_def show_nat.simps digit_def)
  have k1: "collectLabelKeys [seriesA] = [''env'', ''job'']"
    by (simp add: collectLabelKeys_def seriesA_def)
  have k2: "collectLabelKeys [seriesA'] = [''job'']"
    by (simp add: collectLabelKeys_def seriesA'_def)
  have s1: "sort (collectLabelKeys [seriesA]) = [''env'', ''job'']"
    unfolding k1 by simp
  have s2: "sort (collectLabelKeys [seriesA']) = [''job'']"
    unfolding k2 by simp
  have t1: "formatMetrics show_int show_int [seriesA] ''up'' =
     ''| Timestamp | Value | env | job |\<newline>''
     @ ''|---|---|---|---|\<newline>''
     @ ''| 20 | 1 | - | api |\<newline>''
     @ ''| 30 | 0 | - | api |\<newline>''"
    unfolding formatMetrics_def s1 Let_def
    by (simp add: pointRow_def labelCell_def labelValue_def seriesA_def show_int_digits n)
  have t2: "formatMetrics show_int show_int [seriesA'] ''up'' =
     ''| Timestamp | Value | job |\<newline>''
     @ ''|---|---|---|\<newline>''
     @ ''| 20 | 1 | api |\<newline>''
     @ ''| 30 | 0 | api |\<newline>''"
    unfolding formatMetrics_def s2 Let_def
    by (simp add: pointRow_def labelCell_def labelValue_def seriesA'_def show_int_digits n)
  show ?thesis unfolding t1 t2 using h1 h2 h3 by simp
qed

section \<open>Claims about empty results\<close>

text \<open>
  C9, as the code has it. A primary query without matches is no error: \<open>GetComponents\<close>
  returns the text \<open>No components found for query: <query>\<close> for the query it sent, and
  \<open>QueryRangeMetric\<close> returns the text \<open>No data found.\<close> when the range query has no
  series.
\<close>

theorem empty_results_are_messages:
  "(buildQuery gp = Inr query \<and> query \<noteq> '''' \<and> SnapShotTopologyQuery client query = Inr []
      \<longrightarrow>
      GetComponents client gp =
        ([SnapShotTopologyQueryCall query],
         Inr (''No components found for query: '' @ query)))
   \<and> (parseTime parseDuration now1 (Start qp) = Inr startTime \<and>
        parseTime parseDuration now2 (End qp) = Inr endTime \<and>
        step = (if Step qp = '''' then ''1m'' else Step qp) \<and>
        QueryRange client (qr_Query qp) startTime endTime step ''30s'' = Inr []
      \<longrightarrow>
      QueryRangeMetric client parseDuration fmtTime fmtValue now1 now2 qp =
        ([QueryRangeMetricCall (qr_Query qp) startTime endTime step ''30s''],
         Inr ''No data found.''))"
proof (intro conjI impI; (elim conjE)?)
  assume "buildQuery gp = Inr query" and "query \<noteq> ''''"
    and "SnapShotTopologyQuery client query = Inr []"
  then show "GetComponents client gp =
        ([SnapShotTopologyQueryCall query],
         Inr (''No components found for query: '' @ query))"
    by (simp add: GetComponents_def simplifyViewComponents_def formatComponentsTable_def)
next
  assume "parseTime parseDuration now1 (Start qp) = Inr startTime"
    and "parseTime parseDuration now2 (End qp) = Inr endTime"
    and "step = (if Step qp = '''' then ''1m'' else Step qp)"
    and "QueryRange client (qr_Query qp) startTime endTime step ''30s'' = Inr []"
  then show "QueryRangeMetric client parseDuration fmtTime fmtValue now1 now2 qp =
        ([QueryRangeMetricCall (qr_Query qp) startTime endTime step ''30s''],
         Inr ''No data found.'')"
    by (simp add: QueryRangeMetric_def formatMetrics_def Let_def)
qed

theorem empty_results_are_messages_witness:
  \<open>buildQuery (redisParams\<lparr>WithNeighbors := False\<rparr>) = Inr ''name = "redis*"'' \<and>
   SnapShotTopologyQuery (exampleClient []) ''name = "redis*"'' = Inr [] \<and>
   GetComponents (exampleClient []) (redisParams\<lparr>WithNeighbors := False\<rparr>) =
     ([SnapShotTopologyQueryCall ''name = "redis*"''],
      Inr ''No components found for query: name = "redis*"'') \<and>
   parseTime exampleDuration 7200 ''1h'' = Inr 3600 \<and>
   parseTime exampleDuration 7201 ''now'' = Inr 7201 \<and>
   QueryRangeMetric (exampleClient []) exampleDuration show_int show_int 7200 7201
       \<lparr>qr_Query = ''up'', Start = ''1h'', End = ''now'', Step = ''''\<rparr> =
     ([QueryRangeMetricCall ''up'' 3600 7201 ''1m'' ''30s''], Inr ''No data found.'')\<close>
proof -
  let ?gp = "redisParams\<lparr>WithNeighbors := False\<rparr>"
  let ?qp = "\<lparr>qr_Query = ''up'', Start = ''1h'', End = ''now'', Step = ''''\<rparr>"
  have b: "baseQuery ?gp = baseQuery redisParams" by (simp add: baseQuery_def queryParts_def)
  have a1: \<open>buildQuery ?gp = Inr ''name = "redis*"''\<close>
    by (simp add: buildQuery_def b baseQuery_redisParams) (simp add: redisParams_def)
  have a2: \<open>SnapShotTopologyQuery (exampleClient []) ''name = "redis*"'' = Inr []\<close>
    by (simp add: exampleClient_def)
  have b1: "parseTime exampleDuration 7200 (Start ?qp) = Inr 3600"
    by (simp add: parseTime_def exampleDuration_def)
  have b2: "parseTime exampleDuration 7201 (End ?qp) = Inr 7201"
    by (simp add: parseTime_def)
  have b3: "''1m'' = (if Step ?qp = '''' then ''1m'' else Step ?qp)" by simp
  have b4: "QueryRange (exampleClient []) (qr_Query ?qp) 3600 7201 ''1m'' ''30s'' = Inr []"
    by (simp add: exampleClient_def)
  note T = empty_results_are_messages [where gp = ?gp and query = \<open>''name = "redis*"''\<close>
      and client = "exampleClient []" and parseDuration = exampleDuration and ?now1.0 = 7200
      and ?now2.0 = 7201 and qp = ?qp and startTime = 3600 and endTime = 7201
      and step = "''1m''" and fmtTime = show_int and fmtValue = show_int]
  from T a1 a2 b1 b2 b3 b4 show ?thesis by simp
qed

theorem empty_result_text_counterexample:
  \<open>snd (GetComponents (exampleClient []) (redisParams\<lparr>WithNeighbors := False\<rparr>)) =
     Inr ''No components found for query: name = "redis*"'' \<and>
   snd (GetComponents (exampleClient []) (redisParams\<lparr>WithNeighbors := False\<rparr>)) \<noteq>
     Inr ''no components found for query: name = "redis*"'' \<and>
   snd (QueryRangeMetric (exampleClient []) exampleDuration show_int show_int 7200 7201
          \<lparr>qr_Query = ''up'', Start = ''1h'', End = ''now'', Step = ''''\<rparr>) =
     Inr ''No data found.'' \<and>
   snd (QueryRangeMetric (exampleClient []) exampleDuration show_int show_int 7200 7201
          \<lparr>qr_Query = ''up'', Start = ''1h'', End = ''now'', Step = ''''\<rparr>) \<noteq>
     Inr ''no data found''\<close>
proof -
  have b: "baseQuery (redisParams\<lparr>WithNeighbors := False\<rparr>) = baseQuery redisParams"
    by (simp add: baseQuery_def queryParts_def)
  have q: \<open>buildQuery (redisParams\<lparr>WithNeighbors := False\<rparr>) = Inr ''name = "redis*"''\<close>
    by (simp add: buildQuery_def b baseQuery_redisParams) (simp add: redisParams_def)
  have g: \<open>snd (GetComponents (exampleClient []) (redisParams\<lparr>WithNeighbors := False\<rparr>)) =
     Inr ''No components found for query: name = "redis*"''\<close>
    by (simp add: GetComponents_def q)
      (simp add: exampleClient_def simplifyViewComponents_def formatComponentsTable_def)
  have m: "snd (QueryRangeMetric (exampleClient []) exampleDuration show_int show_int 7200 7201
          \<lparr>qr_Query = ''up'', Start = ''1h'', End = ''now'', Step = ''''\<rparr>) =
     Inr ''No data found.''"
    by (simp add: QueryRangeMetric_def parseTime_def exampleDuration_def exampleClient_def
        formatMetrics_def)
  show ?thesis unfolding g m by simp
qed

end
